theory Spec2Isabelle
  imports Main "HOL-Library.Sublist" "HOL-Library.Multiset"
begin

section \<open>Thrown values, traces and JavaScript truthiness\<close>

text \<open>
  A value thrown by the program: \<open>Error msg\<close> is \<open>new Error(msg)\<close> created by the wrappers
  themselves, \<open>TypeError msg\<close> is raised by the runtime (a method called on undefined),
  \<open>ServiceException name\<close> is whatever an SDK client (or its constructor) throws.
  An operation that awaits SDK calls is modelled as a pair: the list of commands it handed
  to \<open>client.send\<close>, in order, and its outcome (\<open>Inl\<close> a thrown value, \<open>Inr\<close> the returned one).
  An SDK client is a function from the command to the outcome of \<open>send\<close>: the answer
  depends on the request alone.
\<close>

datatype error = Error string | TypeError string | ServiceException string

type_synonym ('c, 'a) io = "'c list \<times> (error + 'a)"

text \<open>\<open>!s\<close> for \<open>s: string | undefined\<close>: undefined and the empty string are falsy.\<close>

fun truthy :: "string option \<Rightarrow> bool" where
  "truthy None = False"
| "truthy (Some s) = (s \<noteq> [])"

text \<open>The string itself where it is truthy, for the branch that goes on to use it.\<close>

fun as_truthy :: "string option \<Rightarrow> string option" where
  "as_truthy None = None"
| "as_truthy (Some s) = (if s = [] then None else Some s)"

text \<open>\<open>!!b\<close> for \<open>b: boolean | undefined\<close>.\<close>

fun truthy_bool :: "bool option \<Rightarrow> bool" where
  "truthy_bool None = False"
| "truthy_bool (Some b) = b"

text \<open>Decimal rendering of a non-negative integer in a template literal.\<close>

definition digit_char :: "nat \<Rightarrow> char" where
  "digit_char d = ''0123456789'' ! d"

fun string_of_nat :: "nat \<Rightarrow> string" where
  "string_of_nat n =
     (if n < 10 then [digit_char n] else string_of_nat (n div 10) @ [digit_char (n mod 10)])"

declare string_of_nat.simps [simp del]

section \<open>SqsWrapper (src/main/transit/sqs/SqsWrapper.ts)\<close>

record MessageAndGroupId =
  groupId :: string
  message :: string

record SendMessageBatchRequestEntry =
  Id :: string
  MessageBody :: string
  MessageGroupId :: string

record SendMessageInput =
  sm_MessageBody :: string
  sm_QueueUrl :: string
  sm_MessageGroupId :: "string option"

record SendMessageBatchInput =
  Entries :: "SendMessageBatchRequestEntry list"
  QueueUrl :: string

datatype sqs_command =
  SendMessageCommand SendMessageInput
| SendMessageBatchCommand SendMessageBatchInput

type_synonym sqs_client = "sqs_command \<Rightarrow> error + unit"

text \<open>lodash \<open>chunk(array, size)\<close>: consecutive slices of \<open>size\<close> elements, the last one
  holding what remains; no slices for an empty array or a size below 1.\<close>

function chunk :: "'a list \<Rightarrow> nat \<Rightarrow> 'a list list" where
  "chunk xs n = (if n = 0 \<or> xs = [] then [] else take n xs # chunk (drop n xs) n)"
  by pat_completeness auto
termination
  by (relation "measure (\<lambda>(xs, n). length xs)") auto

declare chunk.simps [simp del]

definition writeMessage :: "sqs_client \<Rightarrow> sqs_command \<Rightarrow> (sqs_command, unit) io" where
  "writeMessage sqsClient command =
     (case sqsClient command of Inl err \<Rightarrow> ([command], Inl err) | Inr _ \<Rightarrow> ([command], Inr ()))"

definition writeMessageToQueue ::
  "sqs_client \<Rightarrow> string \<Rightarrow> string \<Rightarrow> string option \<Rightarrow> (sqs_command, unit) io" where
  "writeMessageToQueue sqsClient queueUrl msg grp =
     (let command = SendMessageCommand
        \<lparr>sm_MessageBody = msg, sm_QueueUrl = queueUrl, sm_MessageGroupId = grp\<rparr>
      in writeMessage sqsClient command)"

definition writeMessageBatch :: "sqs_client \<Rightarrow> sqs_command \<Rightarrow> (sqs_command, unit) io" where
  "writeMessageBatch sqsClient command =
     (case sqsClient command of Inl err \<Rightarrow> ([command], Inl err) | Inr _ \<Rightarrow> ([command], Inr ()))"

text \<open>\<open>msgChunk.map(...)\<close> with the counter \<open>id\<close> that the callback post-increments.\<close>

fun map_entries :: "nat \<Rightarrow> MessageAndGroupId list \<Rightarrow> SendMessageBatchRequestEntry list" where
  "map_entries i [] = []"
| "map_entries i (m # ms) =
     \<lparr>Id = ''msg-'' @ string_of_nat i, MessageBody = message m, MessageGroupId = groupId m\<rparr>
       # map_entries (Suc i) ms"

definition batch_command :: "string \<Rightarrow> MessageAndGroupId list \<Rightarrow> sqs_command" where
  "batch_command queueUrl msgChunk =
     (let entries = map_entries 0 msgChunk
      in SendMessageBatchCommand \<lparr>Entries = entries, QueueUrl = queueUrl\<rparr>)"

text \<open>The \<open>for (const msgChunk of chunks)\<close> loop: a rejected send leaves the loop.\<close>

fun send_chunks ::
  "sqs_client \<Rightarrow> string \<Rightarrow> MessageAndGroupId list list \<Rightarrow> (sqs_command, unit) io" where
  "send_chunks sqsClient queueUrl [] = ([], Inr ())"
| "send_chunks sqsClient queueUrl (msgChunk # rest) =
     (case writeMessageBatch sqsClient (batch_command queueUrl msgChunk) of
        (t, Inl err) \<Rightarrow> (t, Inl err)
      | (t, Inr _) \<Rightarrow>
          (case send_chunks sqsClient queueUrl rest of (t', r) \<Rightarrow> (t @ t', r)))"

definition writeMessageBatchToFifoQueue ::
  "sqs_client \<Rightarrow> string \<Rightarrow> MessageAndGroupId list \<Rightarrow> (sqs_command, unit) io" where
  "writeMessageBatchToFifoQueue sqsClient queueUrl messages =
     (let chunks = chunk messages 10 in send_chunks sqsClient queueUrl chunks)"

section \<open>DynDb (src/main/transit/DynDb.ts)\<close>

text \<open>
  An item as the database returns it maps attribute names to tagged values; \<open>unmarshall\<close>
  (library code) turns every tagged value into a native one and keeps the attribute names,
  so it is a map over the values with the conversion \<open>conv\<close> taken as a parameter.
\<close>

datatype attribute_value = S string | N string

type_synonym item = "string \<rightharpoonup> attribute_value"

record DynamoDbKey =
  PK :: string
  SK :: "string option"

record PkSkRange =
  pkVal :: string
  skValFrom :: string
  skValTo :: string

record QueryCommandInput =
  TableName :: string
  IndexName :: "string option"
  KeyConditionExpression :: string
  ExpressionAttributeNames :: "(string \<times> string) list"
  ExpressionAttributeValues :: "(string \<times> attribute_value) list"

text \<open>Put, get and delete commands carry the table name and the marshalled item or key.\<close>

datatype ddb_command =
  PutItemCommand string item
| GetItemCommand string item
| QueryCommand QueryCommandInput
| DeleteItemCommand string item

text \<open>A response object; a property the response does not have reads as undefined.\<close>

record ddb_output =
  Item :: "item option"
  Items :: "item list option"

type_synonym DynamoDBClient = "ddb_command \<Rightarrow> error + ddb_output"

record DynamoDBClientConfig =
  ddb_apiVersion :: string
  ddb_region :: string

definition INDEX_NAME :: string where
  "INDEX_NAME = ''GSI1''"

text \<open>\<open>DynDb.init\<close>: the static field \<open>ddb\<close> is passed in and returned; the constructor of the
  client is a parameter that may throw. The \<open>catch\<close> block logs and does not rethrow.\<close>

definition DynDb_init ::
  "(DynamoDBClientConfig \<Rightarrow> error + DynamoDBClient) \<Rightarrow> string \<Rightarrow> DynamoDBClient option
     \<Rightarrow> error + DynamoDBClient option" where
  "DynDb_init new_DynamoDBClient REGION ddb =
     (case ddb of
        None \<Rightarrow>
          (let ddbInitParams = \<lparr>ddb_apiVersion = ''2012-08-10'', ddb_region = REGION\<rparr>
           in case new_DynamoDBClient ddbInitParams of
                Inr client \<Rightarrow> Inr (Some client)
              | Inl err \<Rightarrow> Inr ddb)
      | Some _ \<Rightarrow> Inr ddb)"

text \<open>\<open>await this.ddb?.send(cmd)\<close>: no request and undefined when the client is undefined.\<close>

definition ddb_send ::
  "DynamoDBClient option \<Rightarrow> ddb_command \<Rightarrow> (ddb_command, ddb_output option) io" where
  "ddb_send ddb cmd =
     (case ddb of
        None \<Rightarrow> ([], Inr None)
      | Some client \<Rightarrow>
          (case client cmd of
             Inl err \<Rightarrow> ([cmd], Inl err)
           | Inr result \<Rightarrow> ([cmd], Inr (Some result))))"

text \<open>\<open>marshall(key, {removeUndefinedValues: true})\<close> for a key \<open>{PK, SK?}\<close>.\<close>

definition marshall_key :: "DynamoDbKey \<Rightarrow> item" where
  "marshall_key key =
     (case SK key of
        None \<Rightarrow> [''PK'' \<mapsto> S (PK key)]
      | Some sk \<Rightarrow> [''PK'' \<mapsto> S (PK key), ''SK'' \<mapsto> S sk])"

definition unmarshall :: "(attribute_value \<Rightarrow> 'v) \<Rightarrow> item \<Rightarrow> (string \<rightharpoonup> 'v)" where
  "unmarshall conv it = (\<lambda>k. map_option conv (it k))"

definition deleteKeyFromItem :: "(string \<rightharpoonup> 'v) \<Rightarrow> (string \<rightharpoonup> 'v)" where
  "deleteKeyFromItem record = (record(''PK'' := None))(''SK'' := None)"

text \<open>\<open>result?.Items?.[0]\<close>, together with the array it was read from.\<close>

definition first_item :: "ddb_output option \<Rightarrow> (item \<times> item list) option" where
  "first_item result =
     (case result of
        None \<Rightarrow> None
      | Some r \<Rightarrow>
          (case Items r of None \<Rightarrow> None | Some [] \<Rightarrow> None | Some (x # xs) \<Rightarrow> Some (x, x # xs)))"

text \<open>\<open>putItem\<close>: \<open>marshall\<close> is the SDK's; the stored records have attributes of their own, and
  \<open>marshall\<close> throws on a value it cannot convert. The command is built, and so the item
  marshalled, before anything is sent.\<close>

definition putItem ::
  "('r \<Rightarrow> error + item) \<Rightarrow> DynamoDBClient option \<Rightarrow> string \<Rightarrow> 'r \<Rightarrow> (ddb_command, unit) io" where
  "putItem marshall ddb tableName it =
     (case marshall it of
        Inl err \<Rightarrow> ([], Inl err)
      | Inr marshalled \<Rightarrow>
          (let cmd = PutItemCommand tableName marshalled
           in case ddb_send ddb cmd of
                (t, Inl err) \<Rightarrow> (t, Inl err)
              | (t, Inr _) \<Rightarrow> (t, Inr ())))"

definition getItem ::
  "(attribute_value \<Rightarrow> 'v) \<Rightarrow> DynamoDBClient option \<Rightarrow> string \<Rightarrow> DynamoDbKey
     \<Rightarrow> (ddb_command, (string \<rightharpoonup> 'v) option) io" where
  "getItem conv ddb tableName key =
     (let cmd = GetItemCommand tableName (marshall_key key)
      in case ddb_send ddb cmd of
           (t, Inl err) \<Rightarrow> (t, Inl err)
         | (t, Inr result) \<Rightarrow>
             (case Option.bind result Item of
                Some raw \<Rightarrow> (t, Inr (Some (deleteKeyFromItem (unmarshall conv raw))))
              | None \<Rightarrow> (t, Inr None)))"

definition getItemByPK_input :: "string \<Rightarrow> string \<Rightarrow> QueryCommandInput" where
  "getItemByPK_input tableName pk =
     \<lparr>TableName = tableName, IndexName = None,
      KeyConditionExpression = ''#PK = :pkVal'',
      ExpressionAttributeNames = [(''#PK'', ''PK'')],
      ExpressionAttributeValues = [('':pkVal'', S pk)]\<rparr>"

definition getItemByPK ::
  "(attribute_value \<Rightarrow> 'v) \<Rightarrow> DynamoDBClient option \<Rightarrow> string \<Rightarrow> string
     \<Rightarrow> (ddb_command, (string \<rightharpoonup> 'v) option) io" where
  "getItemByPK conv ddb tableName pk =
     (let cmd = QueryCommand (getItemByPK_input tableName pk)
      in case ddb_send ddb cmd of
           (t, Inl err) \<Rightarrow> (t, Inl err)
         | (t, Inr result) \<Rightarrow>
             (case first_item result of
                None \<Rightarrow> (t, Inr None)
              | Some (raw, its) \<Rightarrow>
                  (let n = length its
                   in if n > 1
                      then (t, Inl (Error (''Multiple items ('' @ string_of_nat n
                                @ '') found with PK '' @ [CHR 0x27] @ pk @ [CHR 0x27])))
                      else (t, Inr (Some (deleteKeyFromItem (unmarshall conv raw)))))))"

definition getItemsByPK_input :: "string \<Rightarrow> string \<Rightarrow> QueryCommandInput" where
  "getItemsByPK_input tableName pk =
     \<lparr>TableName = tableName, IndexName = None,
      KeyConditionExpression = ''#PK = :pkVal'',
      ExpressionAttributeNames = [(''#PK'', ''PK'')],
      ExpressionAttributeValues = [('':pkVal'', S pk)]\<rparr>"

text \<open>The tail shared by the three list queries that return the unmarshalled items as they are:
  \<open>if (!result?.Items?.[0]) return []; return result.Items.map((item) => unmarshall(item))\<close>.\<close>

definition unmarshalled_items ::
  "(attribute_value \<Rightarrow> 'v) \<Rightarrow> ddb_output option \<Rightarrow> (string \<rightharpoonup> 'v) list" where
  "unmarshalled_items conv result =
     (case first_item result of
        None \<Rightarrow> []
      | Some (_, its) \<Rightarrow> map (\<lambda>raw. unmarshall conv raw) its)"

definition getItemsByPK ::
  "(attribute_value \<Rightarrow> 'v) \<Rightarrow> DynamoDBClient option \<Rightarrow> string \<Rightarrow> string
     \<Rightarrow> (ddb_command, (string \<rightharpoonup> 'v) list) io" where
  "getItemsByPK conv ddb tableName pk =
     (let cmd = QueryCommand (getItemsByPK_input tableName pk)
      in case ddb_send ddb cmd of
           (t, Inl err) \<Rightarrow> (t, Inl err)
         | (t, Inr result) \<Rightarrow> (t, Inr (unmarshalled_items conv result)))"

definition getItemsWithSKBeginning_input :: "string \<Rightarrow> string \<Rightarrow> string \<Rightarrow> QueryCommandInput" where
  "getItemsWithSKBeginning_input tableName pk sk =
     \<lparr>TableName = tableName, IndexName = None,
      KeyConditionExpression = ''#PK = :pkVal AND begins_with(#SK , :skVal)'',
      ExpressionAttributeNames = [(''#PK'', ''PK''), (''#SK'', ''SK'')],
      ExpressionAttributeValues = [('':pkVal'', S pk), ('':skVal'', S sk)]\<rparr>"

definition getItemsWithSKBeginning ::
  "(attribute_value \<Rightarrow> 'v) \<Rightarrow> DynamoDBClient option \<Rightarrow> string \<Rightarrow> string \<Rightarrow> string
     \<Rightarrow> (ddb_command, (string \<rightharpoonup> 'v) list) io" where
  "getItemsWithSKBeginning conv ddb tableName pk sk =
     (let cmd = QueryCommand (getItemsWithSKBeginning_input tableName pk sk)
      in case ddb_send ddb cmd of
           (t, Inl err) \<Rightarrow> (t, Inl err)
         | (t, Inr result) \<Rightarrow> (t, Inr (unmarshalled_items conv result)))"

text \<open>The key types \<open>'S' | 'N'\<close>; an omitted optional argument is \<open>None\<close> and takes its
  default.\<close>

datatype key_type = Type_S | Type_N

definition getItemsWithSKBetween_input ::
  "string \<Rightarrow> PkSkRange \<Rightarrow> string option \<Rightarrow> string option \<Rightarrow> key_type option \<Rightarrow> key_type option
     \<Rightarrow> string option \<Rightarrow> QueryCommandInput" where
  "getItemsWithSKBetween_input tableName keyVals partitionKeyName sortKeyName partitionKeyType
       sortKeyType indexName =
     (let pkName = (case partitionKeyName of None \<Rightarrow> ''PK'' | Some n \<Rightarrow> n);
          skName = (case sortKeyName of None \<Rightarrow> ''SK'' | Some n \<Rightarrow> n);
          pkType = (case partitionKeyType of None \<Rightarrow> Type_S | Some t \<Rightarrow> t);
          skType = (case sortKeyType of None \<Rightarrow> Type_S | Some t \<Rightarrow> t);
          queryParams =
            \<lparr>TableName = tableName, IndexName = None,
             KeyConditionExpression = ''#PK = :pkVal AND #SK BETWEEN :skValFrom AND :skValTo'',
             ExpressionAttributeNames = [(''#PK'', pkName), (''#SK'', skName)],
             ExpressionAttributeValues = []\<rparr>;
          queryParams = queryParams\<lparr>ExpressionAttributeValues :=
            (if pkType = Type_N then [('':pkVal'', N (pkVal keyVals))]
             else [('':pkVal'', S (pkVal keyVals))])\<rparr>;
          queryParams = queryParams\<lparr>ExpressionAttributeValues :=
            (if skType = Type_N
             then ExpressionAttributeValues queryParams
                    @ [('':skValFrom'', N (skValFrom keyVals)), ('':skValTo'', N (skValTo keyVals))]
             else ExpressionAttributeValues queryParams
                    @ [('':skValFrom'', S (skValFrom keyVals)), ('':skValTo'', S (skValTo keyVals))])\<rparr>
      in if truthy indexName then queryParams\<lparr>IndexName := indexName\<rparr> else queryParams)"

definition getItemsWithSKBetween ::
  "(attribute_value \<Rightarrow> 'v) \<Rightarrow> DynamoDBClient option \<Rightarrow> string \<Rightarrow> PkSkRange \<Rightarrow> string option
     \<Rightarrow> string option \<Rightarrow> key_type option \<Rightarrow> key_type option \<Rightarrow> string option
     \<Rightarrow> (ddb_command, (string \<rightharpoonup> 'v) list) io" where
  "getItemsWithSKBetween conv ddb tableName keyVals partitionKeyName sortKeyName partitionKeyType
       sortKeyType indexName =
     (let command = QueryCommand (getItemsWithSKBetween_input tableName keyVals partitionKeyName
            sortKeyName partitionKeyType sortKeyType indexName)
      in case ddb_send ddb command of
           (t, Inl err) \<Rightarrow> (t, Inl err)
         | (t, Inr result) \<Rightarrow> (t, Inr (unmarshalled_items conv result)))"

definition getItemBySK_input :: "string \<Rightarrow> string \<Rightarrow> QueryCommandInput" where
  "getItemBySK_input tableName sk =
     \<lparr>TableName = tableName, IndexName = Some INDEX_NAME,
      KeyConditionExpression = ''#SK = :skVal'',
      ExpressionAttributeNames = [(''#SK'', ''SK'')],
      ExpressionAttributeValues = [('':skVal'', S sk)]\<rparr>"

definition getItemBySK ::
  "(attribute_value \<Rightarrow> 'v) \<Rightarrow> DynamoDBClient option \<Rightarrow> string \<Rightarrow> string
     \<Rightarrow> (ddb_command, (string \<rightharpoonup> 'v) option) io" where
  "getItemBySK conv ddb tableName sk =
     (let cmd = QueryCommand (getItemBySK_input tableName sk)
      in case ddb_send ddb cmd of
           (t, Inl err) \<Rightarrow> (t, Inl err)
         | (t, Inr result) \<Rightarrow>
             (case first_item result of
                None \<Rightarrow> (t, Inr None)
              | Some (raw, _) \<Rightarrow> (t, Inr (Some (deleteKeyFromItem (unmarshall conv raw))))))"

definition getAllByPKPrefixAndSK_input :: "string \<Rightarrow> string \<Rightarrow> string \<Rightarrow> QueryCommandInput" where
  "getAllByPKPrefixAndSK_input tableName pkPrefix sk =
     \<lparr>TableName = tableName, IndexName = Some INDEX_NAME,
      KeyConditionExpression = ''#SK = :skVal and begins_with(#PK, :pkPrefix)'',
      ExpressionAttributeNames = [(''#SK'', ''SK''), (''#PK'', ''PK'')],
      ExpressionAttributeValues = [('':skVal'', S sk), ('':pkPrefix'', S pkPrefix)]\<rparr>"

definition getAllByPKPrefixAndSK ::
  "(attribute_value \<Rightarrow> 'v) \<Rightarrow> DynamoDBClient option \<Rightarrow> string \<Rightarrow> string \<Rightarrow> string
     \<Rightarrow> (ddb_command, (string \<rightharpoonup> 'v) list) io" where
  "getAllByPKPrefixAndSK conv ddb tableName pkPrefix sk =
     (let cmd = QueryCommand (getAllByPKPrefixAndSK_input tableName pkPrefix sk)
      in case ddb_send ddb cmd of
           (t, Inl err) \<Rightarrow> (t, Inl err)
         | (t, Inr result) \<Rightarrow>
             (let items = map_option (map (\<lambda>rawItem. deleteKeyFromItem (unmarshall conv rawItem)))
                            (Option.bind result Items)
              in (t, Inr (case items of None \<Rightarrow> [] | Some its \<Rightarrow> its))))"

definition deleteItem ::
  "DynamoDBClient option \<Rightarrow> string \<Rightarrow> DynamoDbKey \<Rightarrow> (ddb_command, unit) io" where
  "deleteItem ddb tableName key =
     (let cmd = DeleteItemCommand tableName (marshall_key key)
      in case ddb_send ddb cmd of
           (t, Inl err) \<Rightarrow> (t, Inl err)
         | (t, Inr _) \<Rightarrow> (t, Inr ()))"

section \<open>S3Wrapper (src/main/transit/s3/S3Wrapper.ts)\<close>

text \<open>A listed object; \<open>LastModified\<close> is a date, compared by its time value.\<close>

record s3_Object =
  Key :: "string option"
  LastModified :: "int option"

record PutObjectCommandInput =
  put_Bucket :: string
  put_Key :: string
  put_Body :: "string option"
  ContentType :: "string option"
  ContentEncoding :: "string option"

record ListObjectsV2CommandInput =
  Bucket :: string
  MaxKeys :: "nat option"
  Prefix :: "string option"
  ContinuationToken :: "string option"

text \<open>Get and delete commands carry the bucket and the key.\<close>

datatype s3_command =
  GetObjectCommand string string
| PutObjectCommand PutObjectCommandInput
| DeleteObjectCommand string string
| ListObjectsV2Command ListObjectsV2CommandInput

text \<open>The body of a fetched object: what \<open>toString()\<close> gives, and, read as a stream, the
  chunks it emits followed by \<open>end\<close> or by an \<open>error\<close> event.\<close>

record object_body =
  to_string :: string
  stream_chunks :: "string list"
  stream_error :: "error option"

record s3_output =
  Body :: "object_body option"
  IsTruncated :: "bool option"
  NextContinuationToken :: "string option"
  Contents :: "s3_Object list option"

type_synonym S3Client = "s3_command \<Rightarrow> error + s3_output"

record S3ClientConfig =
  s3_region :: string
  s3_apiVersion :: string

text \<open>The static fields of the class.\<close>

record S3Wrapper =
  s3Client :: "S3Client option"
  config :: S3ClientConfig

text \<open>\<open>filterResultsFiles\<close>, with \<open>String.prototype.includes\<close> as a search for a contiguous
  occurrence.\<close>

fun string_includes :: "string \<Rightarrow> string \<Rightarrow> bool" where
  "string_includes [] needle = (needle = [])"
| "string_includes (c # cs) needle = (prefix needle (c # cs) \<or> string_includes cs needle)"

definition filterResultsFiles :: "string \<Rightarrow> s3_Object \<Rightarrow> bool" where
  "filterResultsFiles excludeFilenamesContaining file =
     (case as_truthy (Key file) of
        None \<Rightarrow> False
      | Some key \<Rightarrow> \<not> string_includes key excludeFilenamesContaining)"

definition sortFilesByDate :: "s3_Object \<Rightarrow> s3_Object \<Rightarrow> int" where
  "sortFilesByDate left right =
     (case (LastModified left, LastModified right) of
        (Some l, Some r) \<Rightarrow> (if l > r then - 1 else 1)
      | _ \<Rightarrow> 0)"

definition filterFunction :: "s3_Object \<Rightarrow> bool" where
  "filterFunction = filterResultsFiles ''result_''"

text \<open>
  \<open>Array.prototype.sort(comparefn)\<close> is the engine's (V8's TimSort). An array of fewer than
  two elements is left as it is. For an array of fewer than 64 elements the minimal run length
  is the length of the array, so the engine finds the run the array starts with
  (\<open>CountAndMakeRun\<close>), reverses it when it is descending, and inserts every later element into
  the sorted front by binary search (\<open>BinaryInsertionSort\<close>); no runs are merged. This is the
  part of the engine that is modelled: \<open>array_sort\<close> follows it for arrays of every length,
  and it is the engine's order for the arrays of fewer than 64 elements.

  \<open>run_rest\<close> counts how far the run goes on after its first two elements: the loop compares
  each element with the one before it and stops at the first that breaks the direction of
  the run.
\<close>

fun run_rest :: "('a \<Rightarrow> 'a \<Rightarrow> int) \<Rightarrow> bool \<Rightarrow> 'a \<Rightarrow> 'a list \<Rightarrow> nat" where
  "run_rest comparefn isDescending previous [] = 0"
| "run_rest comparefn isDescending previous (current # later) =
     (let order = comparefn current previous
      in if (if isDescending then order \<ge> 0 else order < 0) then 0
         else Suc (run_rest comparefn isDescending current later))"

definition CountAndMakeRun :: "('a \<Rightarrow> 'a \<Rightarrow> int) \<Rightarrow> 'a list \<Rightarrow> nat \<times> 'a list" where
  "CountAndMakeRun comparefn work =
     (case work of
        elementHigh # elementLow # later \<Rightarrow>
          (let order = comparefn elementLow elementHigh;
               isDescending = order < 0;
               runLength = 2 + run_rest comparefn isDescending elementLow later
           in if isDescending
              then (runLength, rev (take runLength work) @ drop runLength work)
              else (runLength, work))
      | _ \<Rightarrow> (length work, work))"

text \<open>The binary search of \<open>BinaryInsertionSort\<close>: \<open>work[left..right)\<close> is the part of the sorted
  front still to search; the pivot goes before \<open>work[mid]\<close> exactly when
  \<open>comparefn(pivot, work[mid]) < 0\<close>.\<close>

function binary_position :: "('a \<Rightarrow> 'a \<Rightarrow> int) \<Rightarrow> 'a \<Rightarrow> 'a list \<Rightarrow> nat \<Rightarrow> nat \<Rightarrow> nat" where
  "binary_position comparefn pivot work left right =
     (if left < right
      then (let mid = left + (right - left) div 2;
                order = comparefn pivot (work ! mid)
            in if order < 0 then binary_position comparefn pivot work left mid
               else binary_position comparefn pivot work (mid + 1) right)
      else left)"
  by pat_completeness auto

termination
  by (relation "measure (\<lambda>(comparefn, pivot, work, left, right). right - left)") auto

declare binary_position.simps [simp del]

definition BinaryInsertionSort :: "('a \<Rightarrow> 'a \<Rightarrow> int) \<Rightarrow> 'a list \<Rightarrow> 'a list \<Rightarrow> 'a list" where
  "BinaryInsertionSort comparefn front later =
     foldl (\<lambda>work pivot.
              (let left = binary_position comparefn pivot work 0 (length work)
               in take left work @ pivot # drop left work))
       front later"

definition array_sort :: "('a \<Rightarrow> 'a \<Rightarrow> int) \<Rightarrow> 'a list \<Rightarrow> 'a list" where
  "array_sort comparefn xs =
     (if length xs < 2 then xs
      else (case CountAndMakeRun comparefn xs of
              (runLength, work) \<Rightarrow>
                BinaryInsertionSort comparefn (take runLength work) (drop runLength work)))"

definition initialise ::
  "(S3ClientConfig \<Rightarrow> error + S3Client) \<Rightarrow> S3Wrapper \<Rightarrow> error + (S3Client \<times> S3Wrapper)" where
  "initialise new_S3Client w =
     (case s3Client w of
        Some client \<Rightarrow> Inr (client, w)
      | None \<Rightarrow>
          (case new_S3Client (config w) of
             Inl err \<Rightarrow> Inl err
           | Inr client \<Rightarrow> Inr (client, w\<lparr>s3Client := Some client\<rparr>)))"

definition getS3 ::
  "(S3ClientConfig \<Rightarrow> error + S3Client) \<Rightarrow> S3Wrapper \<Rightarrow> error + (S3Client \<times> S3Wrapper)" where
  "getS3 new_S3Client w = initialise new_S3Client w"

text \<open>\<open>await s3.send(command)\<close>\<close>

definition s3_send :: "S3Client \<Rightarrow> s3_command \<Rightarrow> (s3_command, s3_output) io" where
  "s3_send s3 command =
     (case s3 command of Inl err \<Rightarrow> ([command], Inl err) | Inr data \<Rightarrow> ([command], Inr data))"

text \<open>Every operation returns the class's static state after the call, the commands sent and
  the outcome.\<close>

definition retrieveFileData ::
  "(S3ClientConfig \<Rightarrow> error + S3Client) \<Rightarrow> S3Wrapper \<Rightarrow> s3_Object list \<Rightarrow> string
     \<Rightarrow> S3Wrapper \<times> (s3_command, string) io" where
  "retrieveFileData new_S3Client w files bucket =
     (let fileKey = (case files of [] \<Rightarrow> None | f # _ \<Rightarrow> Key f)
      in case as_truthy fileKey of
           None \<Rightarrow> (w, [], Inl (Error ''No file found''))
         | Some key \<Rightarrow>
           (case getS3 new_S3Client w of
              Inl err \<Rightarrow> (w, [], Inl err)
            | Inr (s3, w') \<Rightarrow>
                (case s3_send s3 (GetObjectCommand bucket key) of
                   (t, Inl err) \<Rightarrow> (w', t, Inl err)
                 | (t, Inr data) \<Rightarrow>
                     (case Body data of
                        None \<Rightarrow> (w', t, Inl (Error (''No data found in file '' @ key)))
                      | Some b \<Rightarrow> (w', t, Inr (to_string b))))))"

definition retrieveSortedFileList ::
  "(S3ClientConfig \<Rightarrow> error + S3Client) \<Rightarrow> S3Wrapper \<Rightarrow> string
     \<Rightarrow> S3Wrapper \<times> (s3_command, s3_Object list option) io" where
  "retrieveSortedFileList new_S3Client w bucket =
     (let listObjectsParams =
            \<lparr>Bucket = bucket, MaxKeys = None, Prefix = None, ContinuationToken = None\<rparr>
      in case getS3 new_S3Client w of
           Inl err \<Rightarrow> (w, [], Inl err)
         | Inr (s3, w') \<Rightarrow>
             (case s3_send s3 (ListObjectsV2Command listObjectsParams) of
                (t, Inl err) \<Rightarrow> (w', t, Inl err)
              | (t, Inr files) \<Rightarrow>
                  (let filteredFiles = map_option (filter filterFunction) (Contents files);
                       filteredFiles = map_option (array_sort sortFilesByDate) filteredFiles
                   in (w', t, Inr filteredFiles))))"

text \<open>\<open>createFileInBucket\<close>: the \<open>try\<close> block covers \<open>getS3()\<close>; the promise of \<open>send\<close> is returned
  without \<open>await\<close>, so a rejected send reaches the caller without passing the \<open>catch\<close>
  block, which logs and rethrows.\<close>

definition createFileInBucket ::
  "(S3ClientConfig \<Rightarrow> error + S3Client) \<Rightarrow> S3Wrapper \<Rightarrow> string \<Rightarrow> string option \<Rightarrow> string
     \<Rightarrow> string option \<Rightarrow> string option \<Rightarrow> S3Wrapper \<times> (s3_command, s3_output) io" where
  "createFileInBucket new_S3Client w bucket contents filename contentType encoding =
     (let putObjectParams =
            \<lparr>put_Bucket = bucket, put_Key = filename, put_Body = contents,
             ContentType = Some (case contentType of None \<Rightarrow> ''application/json'' | Some c \<Rightarrow> c),
             ContentEncoding = encoding\<rparr>
      in case getS3 new_S3Client w of
           Inl err \<Rightarrow> (w, [], Inl err)
         | Inr (s3, w') \<Rightarrow>
             (case s3_send s3 (PutObjectCommand putObjectParams) of (t, r) \<Rightarrow> (w', t, r)))"

text \<open>\<open>getFileByName\<close>: when the answer has no \<open>Body\<close>, \<open>stream.on\<close> throws the runtime's
  \<open>TypeError\<close> inside the promise's executor, which rejects the promise with it.\<close>

definition stream_on_undefined :: string where
  "stream_on_undefined =
     ''Cannot read properties of undefined (reading '' @ [CHR 0x27] @ ''on'' @ [CHR 0x27] @ '')''"

definition getFileByName ::
  "(S3ClientConfig \<Rightarrow> error + S3Client) \<Rightarrow> S3Wrapper \<Rightarrow> string \<Rightarrow> string
     \<Rightarrow> S3Wrapper \<times> (s3_command, string) io" where
  "getFileByName new_S3Client w bucket name =
     (case getS3 new_S3Client w of
        Inl err \<Rightarrow> (w, [], Inl err)
      | Inr (s3, w') \<Rightarrow>
          (case s3_send s3 (GetObjectCommand bucket name) of
             (t, Inl err) \<Rightarrow> (w', t, Inl err)
           | (t, Inr data) \<Rightarrow>
               (case Body data of
                  None \<Rightarrow> (w', t, Inl (TypeError stream_on_undefined))
                | Some stream \<Rightarrow>
                    (case stream_error stream of
                       Some err \<Rightarrow> (w', t, Inl err)
                     | None \<Rightarrow> (w', t, Inr (concat (stream_chunks stream)))))))"

definition deleteFileByName ::
  "(S3ClientConfig \<Rightarrow> error + S3Client) \<Rightarrow> S3Wrapper \<Rightarrow> string \<Rightarrow> string
     \<Rightarrow> S3Wrapper \<times> (s3_command, s3_output) io" where
  "deleteFileByName new_S3Client w bucket name =
     (case getS3 new_S3Client w of
        Inl err \<Rightarrow> (w, [], Inl err)
      | Inr (s3, w') \<Rightarrow>
          (case s3_send s3 (DeleteObjectCommand bucket name) of (t, r) \<Rightarrow> (w', t, r)))"

text \<open>\<open>getSignedUrl\<close> is the presigner's: it signs the command and sends nothing through the
  client.\<close>

datatype operation = Op_get | Op_put

definition getSignedUrlForFile ::
  "(S3Client \<Rightarrow> s3_command \<Rightarrow> nat \<Rightarrow> error + string) \<Rightarrow> (S3ClientConfig \<Rightarrow> error + S3Client)
     \<Rightarrow> S3Wrapper \<Rightarrow> string \<Rightarrow> string \<Rightarrow> operation \<Rightarrow> nat option
     \<Rightarrow> S3Wrapper \<times> (s3_command, string) io" where
  "getSignedUrlForFile getSignedUrl new_S3Client w bucket filename operation expiresSeconds =
     (let expires = (case expiresSeconds of None \<Rightarrow> 3600 | Some n \<Rightarrow> n);
          putObjectParams =
            \<lparr>put_Bucket = bucket, put_Key = filename, put_Body = None, ContentType = None,
             ContentEncoding = None\<rparr>
      in case getS3 new_S3Client w of
           Inl err \<Rightarrow> (w, [], Inl err)
         | Inr (s3, w') \<Rightarrow>
             (let command = (if operation = Op_get then GetObjectCommand bucket filename
                             else PutObjectCommand putObjectParams)
              in (w', [], getSignedUrl s3 command expires)))"

text \<open>\<open>result.Contents?.forEach((file) => { if (file.Key) results.push(file.Key) })\<close>\<close>

definition push_keys :: "string list \<Rightarrow> s3_output \<Rightarrow> string list" where
  "push_keys results result =
     (case Contents result of
        None \<Rightarrow> results
      | Some files \<Rightarrow>
          foldl (\<lambda>acc file. case as_truthy (Key file) of Some key \<Rightarrow> acc @ [key] | None \<Rightarrow> acc)
            results files)"

text \<open>
  The loop of \<open>getListOfFileKeys\<close>. The command is built once, before the loop, and keeps a
  reference to the object \<open>listObjectsParams\<close>; the loop assigns the continuation token to
  that object. The store maps a reference to the object it denotes: \<open>send\<close> reads the
  command's input through the reference at the moment of the call, so it sees the
  assignment made by the iteration before. The body runs at least once (\<open>isTruncated\<close> starts
  true); the loop may run forever, and not returning is \<open>None\<close>.
\<close>

type_synonym ref = nat

type_synonym store = "ref \<Rightarrow> ListObjectsV2CommandInput"

partial_function (option) listing_loop ::
  "S3Client \<Rightarrow> ref \<Rightarrow> ref \<Rightarrow> store \<Rightarrow> string list \<Rightarrow> s3_command list
     \<Rightarrow> ((s3_command, string list) io) option" where
  "listing_loop s3 command_input listObjectsParams h results sent =
     (case s3_send s3 (ListObjectsV2Command (h command_input)) of
        (t, Inl err) \<Rightarrow> Some (sent @ t, Inl err)
      | (t, Inr result) \<Rightarrow>
          (let isTruncated = truthy_bool (IsTruncated result);
               h' = h(listObjectsParams :=
                      (h listObjectsParams)\<lparr>ContinuationToken := NextContinuationToken result\<rparr>);
               results' = push_keys results result
           in if isTruncated
              then listing_loop s3 command_input listObjectsParams h' results' (sent @ t)
              else Some (sent @ t, Inr results')))"

definition getListOfFileKeys ::
  "(S3ClientConfig \<Rightarrow> error + S3Client) \<Rightarrow> S3Wrapper \<Rightarrow> string \<Rightarrow> string option
     \<Rightarrow> (S3Wrapper \<times> (s3_command, string list) io) option" where
  "getListOfFileKeys new_S3Client w bucket pfx =
     (let listObjectsParams = (0 :: ref);
          h = (\<lambda>_. \<lparr>Bucket = bucket, MaxKeys = Some 100, Prefix = pfx, ContinuationToken = None\<rparr>)
      in case getS3 new_S3Client w of
           Inl err \<Rightarrow> Some (w, [], Inl err)
         | Inr (s3, w') \<Rightarrow>
             (let command_input = listObjectsParams
              in map_option (\<lambda>r. (w', r)) (listing_loop s3 command_input listObjectsParams h [] [])))"

text \<open>\<open>decodeURIComponent\<close> is the runtime's and throws on a malformed escape.\<close>

definition stripS3ObjectKeyOfSpecialChars :: "(string \<Rightarrow> error + string) \<Rightarrow> string \<Rightarrow> error + string" where
  "stripS3ObjectKeyOfSpecialChars decodeURIComponent s3ObjectKey =
     decodeURIComponent (map (\<lambda>c. if c = CHR ''+'' then CHR '' '' else c) s3ObjectKey)"

section \<open>SsmWrapper (src/main/transit/ssm/SsmWrapper.ts)\<close>

record GetParameterCommandInput =
  Name :: string
  WithDecryption :: bool

datatype ssm_command = GetParameterCommand GetParameterCommandInput

record ssm_Parameter =
  Value :: "string option"

record ssm_output =
  Parameter :: "ssm_Parameter option"

type_synonym SSMClient = "ssm_command \<Rightarrow> error + ssm_output"

text \<open>
  The static fields of the class. The cache is the external library's; with its default
  settings \<open>get\<close> returns what the last \<open>set\<close> under that name stored, and nothing (\<open>None\<close>) for
  a name never set. \<open>set\<close> measures the value it is given before it stores it, and for
  \<open>undefined\<close> that throws a \<open>TypeError\<close>, the cache left as it was. This is all that is modelled
  of it.
\<close>

record SsmWrapper =
  ssm :: "SSMClient option"
  cache :: "string \<Rightarrow> string option"

definition cache_get :: "(string \<Rightarrow> string option) \<Rightarrow> string \<Rightarrow> string option" where
  "cache_get c name = c name"

definition set_undefined :: string where
  "set_undefined =
     ''The '' @ [CHR 0x22] @ ''buffer'' @ [CHR 0x22]
       @ '' argument must be of type string or an instance of Buffer, TypedArray, DataView, or ArrayBuffer. Received undefined''"

definition cache_set ::
  "(string \<Rightarrow> string option) \<Rightarrow> string \<Rightarrow> string option \<Rightarrow> error + (string \<Rightarrow> string option)" where
  "cache_set c name v =
     (case v of
        None \<Rightarrow> Inl (TypeError set_undefined)
      | Some s \<Rightarrow> Inr (c(name := Some s)))"

definition SsmWrapper_init :: "(string \<Rightarrow> error + SSMClient) \<Rightarrow> string \<Rightarrow> SsmWrapper \<Rightarrow> error + SsmWrapper" where
  "SsmWrapper_init new_SSMClient REGION w =
     (case new_SSMClient REGION of
        Inl err \<Rightarrow> Inl err
      | Inr client \<Rightarrow> Inr (w\<lparr>ssm := Some client\<rparr>))"

text \<open>\<open>getParam\<close>: \<open>init\<close> is called outside the \<open>try\<close> block; inside it, the \<open>catch\<close> block logs
  and rethrows. The state is returned as it is when the call ends, thrown or not.\<close>

definition send_on_undefined :: string where
  "send_on_undefined =
     ''Cannot read properties of undefined (reading '' @ [CHR 0x27] @ ''send'' @ [CHR 0x27] @ '')''"

definition getParam ::
  "(string \<Rightarrow> error + SSMClient) \<Rightarrow> string \<Rightarrow> SsmWrapper \<Rightarrow> string \<Rightarrow> bool option
     \<Rightarrow> SsmWrapper \<times> (ssm_command, string option) io" where
  "getParam new_SSMClient REGION w paramName decrypt =
     (let decrypt = (case decrypt of None \<Rightarrow> True | Some d \<Rightarrow> d)
      in case (case ssm w of
                 None \<Rightarrow> SsmWrapper_init new_SSMClient REGION w
               | Some _ \<Rightarrow> Inr w) of
           Inl err \<Rightarrow> (w, [], Inl err)
         | Inr w1 \<Rightarrow>
             (let v = cache_get (cache w1) paramName
              in if \<not> truthy v
                 then
                   (let command = GetParameterCommand \<lparr>Name = paramName, WithDecryption = decrypt\<rparr>
                    in case ssm w1 of
                         None \<Rightarrow> (w1, [], Inl (TypeError send_on_undefined))
                       | Some client \<Rightarrow>
                           (case client command of
                              Inl err \<Rightarrow> (w1, [command], Inl err)
                            | Inr result \<Rightarrow>
                                (let v = Option.bind (Parameter result) Value
                                 in case cache_set (cache w1) paramName v of
                                      Inl err \<Rightarrow> (w1, [command], Inl err)
                                    | Inr c \<Rightarrow> (w1\<lparr>cache := c\<rparr>, [command], Inr v))))
                 else (w1, [], Inr v)))"

definition getParamValue ::
  "(string \<Rightarrow> error + SSMClient) \<Rightarrow> string \<Rightarrow> SsmWrapper \<Rightarrow> string \<Rightarrow> bool option
     \<Rightarrow> SsmWrapper \<times> (ssm_command, string option) io" where
  "getParamValue new_SSMClient REGION w paramName decrypt =
     getParam new_SSMClient REGION w paramName decrypt"

text \<open>\<open>JSON.parse\<close> is the runtime's and throws on malformed text.\<close>

definition getParamObject ::
  "(string \<Rightarrow> error + 'a) \<Rightarrow> (string \<Rightarrow> error + SSMClient) \<Rightarrow> string \<Rightarrow> SsmWrapper \<Rightarrow> string
     \<Rightarrow> bool option \<Rightarrow> SsmWrapper \<times> (ssm_command, 'a option) io" where
  "getParamObject JSON_parse new_SSMClient REGION w paramName decrypt =
     (case getParam new_SSMClient REGION w paramName decrypt of
        (w', t, Inl err) \<Rightarrow> (w', t, Inl err)
      | (w', t, Inr v) \<Rightarrow>
          (case as_truthy v of
             Some json \<Rightarrow>
               (case JSON_parse json of
                  Inl err \<Rightarrow> (w', t, Inl err)
                | Inr obj \<Rightarrow> (w', t, Inr (Some obj)))
           | None \<Rightarrow> (w', t, Inr None)))"

section \<open>The HTTP handler and the calls it makes\<close>

text \<open>
  The handler (deployed as \<open>src/main/handlers/lambda.handler\<close>) calls \<open>getRecord\<close> of
  \<open>transit/db/ddb\<close>, \<open>TestDao.getTree\<close>, \<open>S3Wrapper.createFileInBucket\<close> and
  \<open>SqsWrapper.writeMessageBatchToFifoQueue\<close>, each in a \<open>try\<close> block of its own.
\<close>

record ProcessEnv =
  TABLE_NAME :: string
  TABLE_ARN :: string
  REGION :: string
  QUEUE_URL :: string
  BUCKET_NAME :: string
  THUNDRA_APIKEY :: string

text \<open>\<open>getRecord\<close>: a get-item request through a client of its own.\<close>

definition getRecord :: "DynamoDBClient \<Rightarrow> ProcessEnv \<Rightarrow> (ddb_command, ddb_output) io" where
  "getRecord client env =
     (let command = GetItemCommand (TABLE_NAME env)
            [''pk'' \<mapsto> S ''something'', ''sk'' \<mapsto> S ''else'']
      in case client command of
           Inl err \<Rightarrow> ([command], Inl err)
         | Inr out \<Rightarrow> ([command], Inr out))"

text \<open>\<open>TestDao.getTree\<close>: the table model's \<open>get\<close> is the mapping library's, taken as a
  parameter from the key properties to the outcome.\<close>

definition getTree :: "((string \<times> string) list \<Rightarrow> error + 'm option) \<Rightarrow> error + 'm option" where
  "getTree TestModel_get = TestModel_get [(''pk'', ''test''), (''sk'', ''test'')]"

record response =
  statusCode :: nat
  headers :: "(string \<times> string) list"
  body :: string

text \<open>
  What the handler calls: the serialiser \<open>JSON.stringify\<close>, the raw client of \<open>getRecord\<close>,
  the table model, the object-store wrapper's state and constructor, the queue client.
  The serialiser is the runtime's and is taken to return on every list of thrown values (it
  throws only on a cyclic value); the logging in the second \<open>catch\<close> block does not change
  the response.
\<close>

record 'm services =
  JSON_stringify :: "error list \<Rightarrow> string"
  ddb_raw :: DynamoDBClient
  table_model :: "(string \<times> string) list \<Rightarrow> error + 'm option"
  s3_new :: "S3ClientConfig \<Rightarrow> error + S3Client"
  s3_state :: S3Wrapper
  sqs :: sqs_client

definition call_getRecord :: "'m services \<Rightarrow> ProcessEnv \<Rightarrow> error + ddb_output" where
  "call_getRecord sv env = snd (getRecord (ddb_raw sv) env)"

definition call_getTree :: "'m services \<Rightarrow> error + 'm option" where
  "call_getTree sv = getTree (table_model sv)"

definition call_createFileInBucket :: "'m services \<Rightarrow> ProcessEnv \<Rightarrow> error + s3_output" where
  "call_createFileInBucket sv env =
     snd (snd (createFileInBucket (s3_new sv) (s3_state sv) (BUCKET_NAME env)
       (Some ''some text'') ''file.txt'' (Some ''text/plain'') None))"

definition call_writeMessageBatchToFifoQueue :: "'m services \<Rightarrow> ProcessEnv \<Rightarrow> error + unit" where
  "call_writeMessageBatchToFifoQueue sv env =
     snd (writeMessageBatchToFifoQueue (sqs sv) (QUEUE_URL env)
       [\<lparr>groupId = ''group1'', message = ''hello''\<rparr>])"

definition handler :: "'m services \<Rightarrow> ProcessEnv \<Rightarrow> response" where
  "handler sv env =
     (let errors = [];
          errors = (case call_getRecord sv env of Inl err \<Rightarrow> errors @ [err] | Inr _ \<Rightarrow> errors);
          errors = (case call_getTree sv of Inl err \<Rightarrow> errors @ [err] | Inr _ \<Rightarrow> errors);
          errors = (case call_createFileInBucket sv env of
                      Inl err \<Rightarrow> errors @ [err] | Inr _ \<Rightarrow> errors);
          errors = (case call_writeMessageBatchToFifoQueue sv env of
                      Inl err \<Rightarrow> errors @ [err] | Inr _ \<Rightarrow> errors)
      in if length errors > 0
         then \<lparr>statusCode = 400, headers = [(''Content-Type'', ''text/plain'')],
               body = JSON_stringify sv errors\<rparr>
         else \<lparr>statusCode = 200, headers = [(''Content-Type'', ''text/plain'')],
               body = ''Hello, World! Your request was received''\<rparr>)"

section \<open>Notions used to state the properties\<close>

text \<open>The value a call outcome threw, as the list a \<open>catch\<close> block would append.\<close>

definition thrown :: "error + 'a \<Rightarrow> error list" where
  "thrown r = (case r of Inl err \<Rightarrow> [err] | Inr _ \<Rightarrow> [])"

text \<open>The entry ids of a full batch, and the message bodies a queue command carries.\<close>

definition msg_ids :: "string list" where
  "msg_ids = [''msg-0'', ''msg-1'', ''msg-2'', ''msg-3'', ''msg-4'', ''msg-5'', ''msg-6'',
              ''msg-7'', ''msg-8'', ''msg-9'']"

fun command_bodies :: "sqs_command \<Rightarrow> string list" where
  "command_bodies (SendMessageCommand i) = [sm_MessageBody i]"
| "command_bodies (SendMessageBatchCommand i) = map MessageBody (Entries i)"

text \<open>
  The key condition a query puts to the table: its \<open>KeyConditionExpression\<close> with every
  placeholder (\<open>#\<close> followed by letters, digits or underscores) replaced by the attribute
  name that \<open>ExpressionAttributeNames\<close> gives it. A placeholder without a name is left as it
  is.
\<close>

definition name_char :: "char \<Rightarrow> bool" where
  "name_char c =
     (c \<in> set ''ABCDEFGHIJKLMNOPQRSTUVWXYZabcdefghijklmnopqrstuvwxyz0123456789_'')"

function expand_names :: "(string \<times> string) list \<Rightarrow> string \<Rightarrow> string" where
  "expand_names names [] = []"
| "expand_names names (c # cs) =
     (if c = CHR ''#''
      then (let placeholder = c # takeWhile name_char cs
            in (case map_of names placeholder of Some name \<Rightarrow> name | None \<Rightarrow> placeholder)
               @ expand_names names (dropWhile name_char cs))
      else c # expand_names names cs)"
  by pat_completeness auto

termination
  by (relation "measure (\<lambda>(names, cs). length cs)")
    (auto simp: length_dropWhile_le less_Suc_eq_le)

definition key_condition :: "QueryCommandInput \<Rightarrow> string" where
  "key_condition q = expand_names (ExpressionAttributeNames q) (KeyConditionExpression q)"

section \<open>Example inputs\<close>

definition example_env :: ProcessEnv where
  "example_env =
     \<lparr>TABLE_NAME = ''table'', TABLE_ARN = ''arn:aws:dynamodb:table'', REGION = ''eu-west-1'',
      QUEUE_URL = ''https://sqs/queue.fifo'', BUCKET_NAME = ''bucket'', THUNDRA_APIKEY = ''key''\<rparr>"

definition empty_ddb_output :: ddb_output where
  "empty_ddb_output = \<lparr>Item = None, Items = None\<rparr>"

definition ok_ddb :: DynamoDBClient where
  "ok_ddb command = Inr empty_ddb_output"

definition failing_ddb :: DynamoDBClient where
  "failing_ddb command = Inl (ServiceException ''ResourceNotFoundException'')"

definition ok_table_model :: "(string \<times> string) list \<Rightarrow> error + unit option" where
  "ok_table_model key = Inr None"

definition empty_s3_output :: s3_output where
  "empty_s3_output =
     \<lparr>Body = None, IsTruncated = None, NextContinuationToken = None, Contents = None\<rparr>"

definition ok_s3 :: S3Client where
  "ok_s3 command = Inr empty_s3_output"

definition failing_s3 :: S3Client where
  "failing_s3 command = Inl (ServiceException ''AccessDenied'')"

definition new_ok_s3 :: "S3ClientConfig \<Rightarrow> error + S3Client" where
  "new_ok_s3 cfg = Inr ok_s3"

definition new_failing_s3 :: "S3ClientConfig \<Rightarrow> error + S3Client" where
  "new_failing_s3 cfg = Inr failing_s3"

definition fresh_S3Wrapper :: S3Wrapper where
  "fresh_S3Wrapper =
     \<lparr>s3Client = None, config = \<lparr>s3_region = ''eu-west-1'', s3_apiVersion = []\<rparr>\<rparr>"

definition always_ok :: sqs_client where
  "always_ok command = Inr ()"

definition failing_sqs :: sqs_client where
  "failing_sqs command = Inl (ServiceException ''QueueDoesNotExist'')"

definition hello :: MessageAndGroupId where
  "hello = \<lparr>groupId = ''group1'', message = ''hello''\<rparr>"

text \<open>A serialiser that joins the names of the thrown values.\<close>

fun error_name :: "error \<Rightarrow> string" where
  "error_name (Error m) = m"
| "error_name (TypeError m) = m"
| "error_name (ServiceException n) = n"

definition show_errors :: "error list \<Rightarrow> string" where
  "show_errors errs = concat (map (\<lambda>e. error_name e @ '';'') errs)"

definition ok_services :: "unit services" where
  "ok_services =
     \<lparr>JSON_stringify = show_errors, ddb_raw = ok_ddb, table_model = ok_table_model,
      s3_new = new_ok_s3, s3_state = fresh_S3Wrapper, sqs = always_ok\<rparr>"

definition failing_services :: "unit services" where
  "failing_services =
     \<lparr>JSON_stringify = show_errors, ddb_raw = ok_ddb, table_model = ok_table_model,
      s3_new = new_failing_s3, s3_state = fresh_S3Wrapper, sqs = failing_sqs\<rparr>"

text \<open>A stored item with its key attributes, query responses holding it, and the
  conversion that reads a tagged value as its text.\<close>

definition keyed_item :: item where
  "keyed_item = [''PK'' \<mapsto> S ''user#1'', ''SK'' \<mapsto> S ''profile'', ''name'' \<mapsto> S ''Ann'']"

definition one_item_ddb :: DynamoDBClient where
  "one_item_ddb command = Inr \<lparr>Item = Some keyed_item, Items = Some [keyed_item]\<rparr>"

definition two_items_ddb :: DynamoDBClient where
  "two_items_ddb command = Inr \<lparr>Item = None, Items = Some [keyed_item, keyed_item]\<rparr>"

fun native :: "attribute_value \<Rightarrow> string" where
  "native (S s) = s"
| "native (N n) = n"

text \<open>A parameter store that knows one value, and the wrapper before its first call.\<close>

definition secret_output :: ssm_output where
  "secret_output = \<lparr>Parameter = Some \<lparr>Value = Some ''secret''\<rparr>\<rparr>"

definition param_ssm :: SSMClient where
  "param_ssm command = Inr secret_output"

definition new_param_ssm :: "string \<Rightarrow> error + SSMClient" where
  "new_param_ssm region = Inr param_ssm"

definition fresh_SsmWrapper :: SsmWrapper where
  "fresh_SsmWrapper = \<lparr>ssm = None, cache = (\<lambda>name. None)\<rparr>"

text \<open>A parameter store that rejects every request, and one that answers without a
  value.\<close>

definition failing_ssm :: SSMClient where
  "failing_ssm command = Inl (ServiceException ''ParameterNotFound'')"

definition valueless_ssm :: SSMClient where
  "valueless_ssm command = Inr \<lparr>Parameter = None\<rparr>"



text \<open>The non-empty keys of a page, in order.\<close>

definition page_keys :: "s3_output \<Rightarrow> string list" where
  "page_keys page =
     (case Contents page of None \<Rightarrow> [] | Some files \<Rightarrow> List.map_filter (\<lambda>f. as_truthy (Key f)) files)"

text \<open>
  \<open>paged s3 params pages\<close>: the pages are the answers of the service to the listing that
  starts with \<open>params\<close> and goes on, page after page, with the continuation token of the page
  before; every page but the last is truncated, and the last is not.
\<close>

fun paged :: "S3Client \<Rightarrow> ListObjectsV2CommandInput \<Rightarrow> s3_output list \<Rightarrow> bool" where
  "paged s3 params [] = False"
| "paged s3 params (page # later) =
     (s3 (ListObjectsV2Command params) = Inr page
      \<and> (if later = [] then \<not> truthy_bool (IsTruncated page)
         else truthy_bool (IsTruncated page)
              \<and> paged s3 (params\<lparr>ContinuationToken := NextContinuationToken page\<rparr>) later))"

text \<open>The requests of such a listing: the first with the token of \<open>params\<close>, each later one
  with the token of the page before.\<close>

definition listing_requests :: "ListObjectsV2CommandInput \<Rightarrow> s3_output list \<Rightarrow> s3_command list" where
  "listing_requests params pages =
     map (\<lambda>token. ListObjectsV2Command (params\<lparr>ContinuationToken := token\<rparr>))
       (ContinuationToken params # map NextContinuationToken (butlast pages))"





definition page_one :: s3_output where
  "page_one =
     \<lparr>Body = None, IsTruncated = Some True, NextContinuationToken = Some ''token-1'',
      Contents = Some [\<lparr>Key = Some ''a.csv'', LastModified = Some 100\<rparr>,
                       \<lparr>Key = Some ''b.csv'', LastModified = Some 300\<rparr>]\<rparr>"

definition page_two :: s3_output where
  "page_two =
     \<lparr>Body = None, IsTruncated = Some False, NextContinuationToken = None,
      Contents = Some [\<lparr>Key = Some ''c.csv'', LastModified = Some 200\<rparr>]\<rparr>"

fun two_page_s3 :: S3Client where
  "two_page_s3 (ListObjectsV2Command params) =
     (case ContinuationToken params of None \<Rightarrow> Inr page_one | Some token \<Rightarrow> Inr page_two)"
| "two_page_s3 command = Inl (ServiceException ''NotImplemented'')"

definition new_two_page_s3 :: "S3ClientConfig \<Rightarrow> error + S3Client" where
  "new_two_page_s3 cfg = Inr two_page_s3"

text \<open>
  \<open>rejected_after s3 params pages err\<close>: the service answers the listing that starts with
  \<open>params\<close> with the truncated pages \<open>pages\<close>, each request carrying the continuation token of
  the page before, and rejects the request after them with \<open>err\<close>.
  \<open>requests_until_rejected\<close> are the requests of such a listing, the rejected one last.
\<close>

fun rejected_after :: "S3Client \<Rightarrow> ListObjectsV2CommandInput \<Rightarrow> s3_output list \<Rightarrow> error \<Rightarrow> bool" where
  "rejected_after s3 params [] err = (s3 (ListObjectsV2Command params) = Inl err)"
| "rejected_after s3 params (page # later) err =
     (s3 (ListObjectsV2Command params) = Inr page
      \<and> truthy_bool (IsTruncated page)
      \<and> rejected_after s3 (params\<lparr>ContinuationToken := NextContinuationToken page\<rparr>) later err)"

definition requests_until_rejected ::
  "ListObjectsV2CommandInput \<Rightarrow> s3_output list \<Rightarrow> s3_command list" where
  "requests_until_rejected params pages =
     map (\<lambda>token. ListObjectsV2Command (params\<lparr>ContinuationToken := token\<rparr>))
       (ContinuationToken params # map NextContinuationToken pages)"

text \<open>A listing service that gives one truncated page and rejects the request for the
  next.\<close>

fun rejecting_s3 :: S3Client where
  "rejecting_s3 (ListObjectsV2Command params) =
     (case ContinuationToken params of
        None \<Rightarrow> Inr page_one
      | Some token \<Rightarrow> Inl (ServiceException ''SlowDown''))"
| "rejecting_s3 command = Inl (ServiceException ''NotImplemented'')"

definition new_rejecting_s3 :: "S3ClientConfig \<Rightarrow> error + S3Client" where
  "new_rejecting_s3 cfg = Inr rejecting_s3"




text \<open>An operation with the commands it sent and its outcome \<open>r\<close> rethrows what the client
  threw: for every command sent that the client rejected, the outcome is that very thrown
  value.\<close>

definition rethrows :: "('c \<Rightarrow> error + 'o) \<Rightarrow> ('c, 'a) io \<Rightarrow> bool" where
  "rethrows client r = (\<forall>c \<in> set (fst r). \<forall>err. client c = Inl err \<longrightarrow> snd r = Inl err)"

text \<open>Constructors that throw.\<close>

definition failing_new_ddb :: "DynamoDBClientConfig \<Rightarrow> error + DynamoDBClient" where
  "failing_new_ddb cfg = Inl (ServiceException ''InvalidConfiguration'')"

definition new_throwing_s3 :: "S3ClientConfig \<Rightarrow> error + S3Client" where
  "new_throwing_s3 cfg = Inl (ServiceException ''CredentialsProviderError'')"

section \<open>The handler\<close>

lemma thrown_Nil_iff: "thrown r = [] \<longleftrightarrow> \<not> isl r"
  by (cases r) (simp_all add: thrown_def)

text \<open>The four \<open>try\<close>/\<open>catch\<close> blocks collect, in call order, what the calls threw.\<close>

lemma handler_errors:
  "handler sv env =
     (let errors = thrown (call_getRecord sv env) @ thrown (call_getTree sv)
                   @ thrown (call_createFileInBucket sv env)
                   @ thrown (call_writeMessageBatchToFifoQueue sv env)
      in if errors \<noteq> []
         then \<lparr>statusCode = 400, headers = [(''Content-Type'', ''text/plain'')],
               body = JSON_stringify sv errors\<rparr>
         else \<lparr>statusCode = 200, headers = [(''Content-Type'', ''text/plain'')],
               body = ''Hello, World! Your request was received''\<rparr>)"
  unfolding handler_def Let_def thrown_def
  by (simp split: sum.splits)

text \<open>
  C1. When none of the four calls (the raw get, the table-model get, the object-store put,
  the queue batch send) throws, the handler answers with status 200. When at least one
  throws, it answers with status 400 and the body is the serialisation of the list of the
  thrown values, in the order of the calls.
\<close>

theorem handler_status:
  "(\<not> isl (call_getRecord sv env) \<and> \<not> isl (call_getTree sv)
      \<and> \<not> isl (call_createFileInBucket sv env)
      \<and> \<not> isl (call_writeMessageBatchToFifoQueue sv env)
     \<longrightarrow> statusCode (handler sv env) = 200)
   \<and> (isl (call_getRecord sv env) \<or> isl (call_getTree sv)
      \<or> isl (call_createFileInBucket sv env)
      \<or> isl (call_writeMessageBatchToFifoQueue sv env)
     \<longrightarrow> statusCode (handler sv env) = 400
         \<and> body (handler sv env) =
             JSON_stringify sv
               (thrown (call_getRecord sv env) @ thrown (call_getTree sv)
                @ thrown (call_createFileInBucket sv env)
                @ thrown (call_writeMessageBatchToFifoQueue sv env)))"
  by (auto simp: handler_errors Let_def thrown_Nil_iff)

lemma chunk_single: "chunk [m] 10 = [[m]]"
  by (simp add: chunk.simps)

lemma calls_ok:
  "call_getRecord ok_services example_env = Inr empty_ddb_output"
  "call_getTree ok_services = Inr None"
  "call_createFileInBucket ok_services example_env = Inr empty_s3_output"
  "call_writeMessageBatchToFifoQueue ok_services example_env = Inr ()"
  by (simp_all add: call_getRecord_def call_getTree_def call_createFileInBucket_def
      call_writeMessageBatchToFifoQueue_def ok_services_def getRecord_def ok_ddb_def getTree_def
      ok_table_model_def createFileInBucket_def getS3_def initialise_def fresh_S3Wrapper_def
      new_ok_s3_def s3_send_def ok_s3_def writeMessageBatchToFifoQueue_def chunk_single
      writeMessageBatch_def always_ok_def)

lemma calls_failing:
  "call_getRecord failing_services example_env = Inr empty_ddb_output"
  "call_getTree failing_services = Inr None"
  "call_createFileInBucket failing_services example_env = Inl (ServiceException ''AccessDenied'')"
  "call_writeMessageBatchToFifoQueue failing_services example_env
     = Inl (ServiceException ''QueueDoesNotExist'')"
  by (simp_all add: call_getRecord_def call_getTree_def call_createFileInBucket_def
      call_writeMessageBatchToFifoQueue_def failing_services_def getRecord_def ok_ddb_def getTree_def
      ok_table_model_def createFileInBucket_def getS3_def initialise_def fresh_S3Wrapper_def
      new_failing_s3_def s3_send_def failing_s3_def writeMessageBatchToFifoQueue_def chunk_single
      writeMessageBatch_def failing_sqs_def)

lemma stringify_failing: "JSON_stringify failing_services = show_errors"
  by (simp add: failing_services_def)

theorem handler_status_witness:
  "statusCode (handler ok_services example_env) = 200
   \<and> statusCode (handler failing_services example_env) = 400
   \<and> body (handler failing_services example_env) = ''AccessDenied;QueueDoesNotExist;''"
  using handler_status[of ok_services example_env]
    handler_status[of failing_services example_env]
  by (simp add: calls_ok calls_failing thrown_def stringify_failing show_errors_def)

section \<open>The queue batch helper\<close>

lemma concat_chunk: "0 < n \<Longrightarrow> concat (chunk xs n) = xs"
proof (induction xs n rule: chunk.induct)
  case (1 xs n)
  then show ?case by (subst chunk.simps) auto
qed

lemma chunk_length_le: "c \<in> set (chunk xs n) \<Longrightarrow> length c \<le> n \<and> c \<noteq> []"
proof (induction xs n rule: chunk.induct)
  case (1 xs n)
  from "1.prems" show ?case
    apply (subst (asm) chunk.simps)
    using "1.IH" by (auto split: if_splits)
qed

lemma chunk_butlast_full: "c \<in> set (butlast (chunk xs n)) \<Longrightarrow> length c = n"
proof (induction xs n rule: chunk.induct)
  case (1 xs n)
  show ?case
  proof (cases "n = 0 \<or> xs = []")
    case True
    with "1.prems" show ?thesis by (simp add: chunk.simps)
  next
    case False
    then have eq: "chunk xs n = take n xs # chunk (drop n xs) n"
      by (subst chunk.simps) simp
    show ?thesis
    proof (cases "chunk (drop n xs) n = []")
      case True
      with eq "1.prems" show ?thesis by simp
    next
      case ne: False
      then have "drop n xs \<noteq> []" by (auto simp: chunk.simps)
      then have "length (take n xs) = n" by simp
      moreover from eq ne "1.prems"
      have "c = take n xs \<or> c \<in> set (butlast (chunk (drop n xs) n))" by auto
      ultimately show ?thesis using "1.IH"[OF False] by auto
    qed
  qed
qed

lemma map_entries_Id:
  "map Id (map_entries i ms) = map (\<lambda>k. ''msg-'' @ string_of_nat k) [i ..< i + length ms]"
proof (induction ms arbitrary: i)
  case Nil
  then show ?case by simp
next
  case (Cons m ms)
  have "[i ..< i + length (m # ms)] = i # [Suc i ..< Suc i + length ms]"
    by (subst upt_rec) simp
  then show ?case using Cons.IH[of "Suc i"] by simp
qed

lemma map_entries_MessageBody: "map MessageBody (map_entries i ms) = map message ms"
  by (induction ms arbitrary: i) simp_all

lemma map_entries_MessageGroupId: "map MessageGroupId (map_entries i ms) = map groupId ms"
  by (induction ms arbitrary: i) simp_all

lemma msg_ids_eq: "map (\<lambda>k. ''msg-'' @ string_of_nat k) [0 ..< 10] = msg_ids"
  by (simp add: msg_ids_def upt_rec string_of_nat.simps digit_char_def)

lemma map_entries_ids:
  assumes "length ms \<le> 10"
  shows "map Id (map_entries 0 ms) = take (length ms) msg_ids"
proof -
  have "[0 ..< length ms] = take (length ms) [0 ..< 10]"
    using assms by (simp add: take_upt)
  then have "map (\<lambda>k. ''msg-'' @ string_of_nat k) [0 ..< length ms]
      = take (length ms) (map (\<lambda>k. ''msg-'' @ string_of_nat k) [0 ..< 10])"
    by (simp only: take_map)
  then show ?thesis
    by (simp only: map_entries_Id msg_ids_eq add_0)
qed

text \<open>The loop sends the commands of the chunks in order and stops at the first rejected
  send.\<close>

lemma send_chunks_prefix:
  "prefix (fst (send_chunks sqsClient queueUrl chunks)) (map (batch_command queueUrl) chunks)"
  by (induction chunks) (auto simp: writeMessageBatch_def split: sum.splits prod.splits)

lemma send_chunks_returned:
  "snd (send_chunks sqsClient queueUrl chunks) = Inr () \<Longrightarrow>
   fst (send_chunks sqsClient queueUrl chunks) = map (batch_command queueUrl) chunks"
  by (induction chunks) (auto simp: writeMessageBatch_def split: sum.splits prod.splits)

lemma send_chunks_all_ok:
  "(\<forall>c \<in> set chunks. \<not> isl (sqsClient (batch_command queueUrl c))) \<Longrightarrow>
   send_chunks sqsClient queueUrl chunks = (map (batch_command queueUrl) chunks, Inr ())"
  by (induction chunks) (auto simp: writeMessageBatch_def split: sum.splits prod.splits)

lemma send_chunks_rethrows:
  "snd (send_chunks sqsClient queueUrl chunks) = Inl err \<Longrightarrow>
   \<exists>c \<in> set chunks. sqsClient (batch_command queueUrl c) = Inl err"
  by (induction chunks) (auto simp: writeMessageBatch_def split: sum.splits prod.splits)

lemma command_bodies_batch: "command_bodies (batch_command queueUrl c) = map message c"
  by (simp add: batch_command_def map_entries_MessageBody)

lemma concat_bodies:
  "concat (map command_bodies (map (batch_command queueUrl) (chunk messages 10)))
     = map message messages"
proof -
  have "concat (map command_bodies (map (batch_command queueUrl) (chunk messages 10)))
        = concat (map (map message) (chunk messages 10))"
    by (simp add: command_bodies_batch comp_def)
  also have "\<dots> = map message (concat (chunk messages 10))"
    by (simp add: map_concat)
  finally show ?thesis by (simp add: concat_chunk)
qed

text \<open>
  C3. \<open>writeMessageBatchToFifoQueue\<close> cuts the message list into consecutive chunks whose
  concatenation is the list, each of 1 to 10 messages and all but the last of exactly 10.
  The commands it sends are, in order, the batch commands of the chunks, one per chunk, up to
  the first send that is rejected: when every send is accepted it sends one command for
  every chunk and returns, and whenever it returns the bodies of the commands sent, read in
  send order, are the bodies of the original list. In each chunk's command the entries
  carry the ids \<open>msg-0\<close>, \<open>msg-1\<close>, ... up to \<open>msg-9\<close> in order, with the body and group of the
  message at that position.
\<close>

theorem writeMessageBatchToFifoQueue_chunks:
  "concat (chunk messages 10) = messages
   \<and> (\<forall>c \<in> set (chunk messages 10). 0 < length c \<and> length c \<le> 10)
   \<and> (\<forall>c \<in> set (butlast (chunk messages 10)). length c = 10)
   \<and> prefix (fst (writeMessageBatchToFifoQueue sqsClient queueUrl messages))
        (map (batch_command queueUrl) (chunk messages 10))
   \<and> ((\<forall>c \<in> set (chunk messages 10). \<not> isl (sqsClient (batch_command queueUrl c)))
        \<longrightarrow> writeMessageBatchToFifoQueue sqsClient queueUrl messages
             = (map (batch_command queueUrl) (chunk messages 10), Inr ()))
   \<and> (snd (writeMessageBatchToFifoQueue sqsClient queueUrl messages) = Inr ()
        \<longrightarrow> fst (writeMessageBatchToFifoQueue sqsClient queueUrl messages)
              = map (batch_command queueUrl) (chunk messages 10)
          \<and> concat (map command_bodies
                (fst (writeMessageBatchToFifoQueue sqsClient queueUrl messages)))
              = map message messages)
   \<and> (\<forall>c \<in> set (chunk messages 10). \<exists>entries.
         batch_command queueUrl c
           = SendMessageBatchCommand \<lparr>Entries = entries, QueueUrl = queueUrl\<rparr>
         \<and> map Id entries = take (length c) msg_ids
         \<and> map MessageBody entries = map message c
         \<and> map MessageGroupId entries = map groupId c)"
proof (intro conjI)
  show "concat (chunk messages 10) = messages" by (simp add: concat_chunk)
  show "\<forall>c \<in> set (chunk messages 10). 0 < length c \<and> length c \<le> 10"
    using chunk_length_le by fastforce
  show "\<forall>c \<in> set (butlast (chunk messages 10)). length c = 10"
    using chunk_butlast_full by fastforce
  show "prefix (fst (writeMessageBatchToFifoQueue sqsClient queueUrl messages))
        (map (batch_command queueUrl) (chunk messages 10))"
    by (simp add: writeMessageBatchToFifoQueue_def send_chunks_prefix)
  show "(\<forall>c \<in> set (chunk messages 10). \<not> isl (sqsClient (batch_command queueUrl c)))
        \<longrightarrow> writeMessageBatchToFifoQueue sqsClient queueUrl messages
             = (map (batch_command queueUrl) (chunk messages 10), Inr ())"
    by (simp add: writeMessageBatchToFifoQueue_def send_chunks_all_ok)
  show "snd (writeMessageBatchToFifoQueue sqsClient queueUrl messages) = Inr ()
        \<longrightarrow> fst (writeMessageBatchToFifoQueue sqsClient queueUrl messages)
              = map (batch_command queueUrl) (chunk messages 10)
          \<and> concat (map command_bodies
                (fst (writeMessageBatchToFifoQueue sqsClient queueUrl messages)))
              = map message messages"
    using send_chunks_returned[of sqsClient queueUrl "chunk messages 10"]
      concat_bodies[of queueUrl messages]
    by (simp add: writeMessageBatchToFifoQueue_def)
  show "\<forall>c \<in> set (chunk messages 10). \<exists>entries.
         batch_command queueUrl c
           = SendMessageBatchCommand \<lparr>Entries = entries, QueueUrl = queueUrl\<rparr>
         \<and> map Id entries = take (length c) msg_ids
         \<and> map MessageBody entries = map message c
         \<and> map MessageGroupId entries = map groupId c"
  proof
    fix c assume "c \<in> set (chunk messages 10)"
    then have "length c \<le> 10" using chunk_length_le by fastforce
    then show "\<exists>entries.
         batch_command queueUrl c
           = SendMessageBatchCommand \<lparr>Entries = entries, QueueUrl = queueUrl\<rparr>
         \<and> map Id entries = take (length c) msg_ids
         \<and> map MessageBody entries = map message c
         \<and> map MessageGroupId entries = map groupId c"
      by (simp add: batch_command_def map_entries_ids map_entries_MessageBody
          map_entries_MessageGroupId)
  qed
qed

lemma chunk_11: "chunk (replicate 11 hello) 10 = [replicate 10 hello, [hello]]"
  by code_simp

lemma batch_hello:
  "batch_command ''queue'' [hello]
     = SendMessageBatchCommand
         \<lparr>Entries = [\<lparr>Id = ''msg-0'', MessageBody = ''hello'', MessageGroupId = ''group1''\<rparr>],
          QueueUrl = ''queue''\<rparr>"
  by (simp add: batch_command_def string_of_nat.simps digit_char_def hello_def)

theorem writeMessageBatchToFifoQueue_chunks_witness:
  "concat (chunk (replicate 11 hello) 10) = replicate 11 hello
   \<and> map length (chunk (replicate 11 hello) 10) = [10, 1]
   \<and> writeMessageBatchToFifoQueue always_ok ''queue'' (replicate 11 hello)
       = ([batch_command ''queue'' (replicate 10 hello), batch_command ''queue'' [hello]], Inr ())
   \<and> batch_command ''queue'' [hello]
       = SendMessageBatchCommand
           \<lparr>Entries = [\<lparr>Id = ''msg-0'', MessageBody = ''hello'', MessageGroupId = ''group1''\<rparr>],
            QueueUrl = ''queue''\<rparr>"
  using writeMessageBatchToFifoQueue_chunks[of "replicate 11 hello" always_ok "''queue''"]
  by (simp add: chunk_11 always_ok_def batch_hello)

section \<open>The key-value access layer\<close>

lemma ddb_send_Some:
  "ddb_send (Some client) cmd =
     ([cmd], case client cmd of Inl err \<Rightarrow> Inl err | Inr result \<Rightarrow> Inr (Some result))"
  by (simp add: ddb_send_def split: sum.splits)

lemma ddb_send_None: "ddb_send None cmd = ([], Inr None)"
  by (simp add: ddb_send_def)

lemma first_item_None_iff:
  "first_item (Some result) = None \<longleftrightarrow> Items result = None \<or> Items result = Some []"
  by (simp add: first_item_def split: option.splits list.splits)

lemma first_item_Cons: "Items result = Some (x # xs) \<Longrightarrow> first_item (Some result) = Some (x, x # xs)"
  by (simp add: first_item_def)

lemma deleteKeyFromItem_keys:
  "deleteKeyFromItem r ''PK'' = None" "deleteKeyFromItem r ''SK'' = None"
  by (simp_all add: deleteKeyFromItem_def)

lemma deleteKeyFromItem_other:
  "k \<noteq> ''PK'' \<Longrightarrow> k \<noteq> ''SK'' \<Longrightarrow> deleteKeyFromItem r k = r k"
  by (simp add: deleteKeyFromItem_def)

lemma unmarshall_apply: "unmarshall conv raw k = map_option conv (raw k)"
  by (simp add: unmarshall_def)

text \<open>
  C8. When the client answers the query of \<open>getItemByPK\<close>: no items (none listed, or an
  empty list) give undefined; more than one item gives a thrown \<open>Error\<close> that names the
  count and the key; exactly one item gives that item, unmarshalled, without its \<open>PK\<close> and
  \<open>SK\<close> attributes and with every other attribute kept.
\<close>

theorem getItemByPK_result:
  assumes "client (QueryCommand (getItemByPK_input tableName pk)) = Inr result"
  shows "fst (getItemByPK conv (Some client) tableName pk)
           = [QueryCommand (getItemByPK_input tableName pk)]
    \<and> (Items result = None \<or> Items result = Some []
         \<longrightarrow> snd (getItemByPK conv (Some client) tableName pk) = Inr None)
    \<and> (\<forall>its. Items result = Some its \<and> 1 < length its
         \<longrightarrow> snd (getItemByPK conv (Some client) tableName pk)
               = Inl (Error (''Multiple items ('' @ string_of_nat (length its)
                       @ '') found with PK '' @ [CHR 0x27] @ pk @ [CHR 0x27])))
    \<and> (\<forall>raw. Items result = Some [raw]
         \<longrightarrow> (\<exists>r. snd (getItemByPK conv (Some client) tableName pk) = Inr (Some r)
                \<and> r = deleteKeyFromItem (unmarshall conv raw)
                \<and> r ''PK'' = None \<and> r ''SK'' = None
                \<and> (\<forall>k. k \<noteq> ''PK'' \<and> k \<noteq> ''SK'' \<longrightarrow> r k = map_option conv (raw k))))"
proof (intro conjI allI impI)
  show "fst (getItemByPK conv (Some client) tableName pk)
           = [QueryCommand (getItemByPK_input tableName pk)]"
    using assms
    by (simp add: getItemByPK_def ddb_send_Some Let_def split: option.splits prod.splits)
next
  assume "Items result = None \<or> Items result = Some []"
  then have "first_item (Some result) = None" by (simp add: first_item_None_iff)
  then show "snd (getItemByPK conv (Some client) tableName pk) = Inr None"
    using assms by (simp add: getItemByPK_def ddb_send_Some)
next
  fix its assume a: "Items result = Some its \<and> 1 < length its"
  then obtain x xs where "its = x # xs" by (cases its) auto
  with a have "first_item (Some result) = Some (x, its)" by (simp add: first_item_Cons)
  then show "snd (getItemByPK conv (Some client) tableName pk)
               = Inl (Error (''Multiple items ('' @ string_of_nat (length its)
                       @ '') found with PK '' @ [CHR 0x27] @ pk @ [CHR 0x27]))"
    using assms a by (simp add: getItemByPK_def ddb_send_Some Let_def)
next
  fix raw assume "Items result = Some [raw]"
  then have "first_item (Some result) = Some (raw, [raw])" by (simp add: first_item_Cons)
  then have "snd (getItemByPK conv (Some client) tableName pk)
               = Inr (Some (deleteKeyFromItem (unmarshall conv raw)))"
    using assms by (simp add: getItemByPK_def ddb_send_Some Let_def)
  then show "\<exists>r. snd (getItemByPK conv (Some client) tableName pk) = Inr (Some r)
                \<and> r = deleteKeyFromItem (unmarshall conv raw)
                \<and> r ''PK'' = None \<and> r ''SK'' = None
                \<and> (\<forall>k. k \<noteq> ''PK'' \<and> k \<noteq> ''SK'' \<longrightarrow> r k = map_option conv (raw k))"
    by (simp add: deleteKeyFromItem_keys deleteKeyFromItem_other unmarshall_apply)
qed

lemma stripped_keyed_item:
  "deleteKeyFromItem (unmarshall native keyed_item) ''PK'' = None"
  "deleteKeyFromItem (unmarshall native keyed_item) ''SK'' = None"
  "deleteKeyFromItem (unmarshall native keyed_item) ''name'' = Some ''Ann''"
  by (simp_all add: deleteKeyFromItem_def unmarshall_def keyed_item_def)

theorem getItemByPK_result_witness:
  "snd (getItemByPK native (Some ok_ddb) ''table'' ''user#1'') = Inr None
   \<and> snd (getItemByPK native (Some two_items_ddb) ''table'' ''user#1'')
       = Inl (Error (''Multiple items (2) found with PK '' @ [CHR 0x27] @ ''user#1'' @ [CHR 0x27]))
   \<and> snd (getItemByPK native (Some one_item_ddb) ''table'' ''user#1'')
       = Inr (Some (deleteKeyFromItem (unmarshall native keyed_item)))
   \<and> deleteKeyFromItem (unmarshall native keyed_item) ''PK'' = None
   \<and> deleteKeyFromItem (unmarshall native keyed_item) ''SK'' = None
   \<and> deleteKeyFromItem (unmarshall native keyed_item) ''name'' = Some ''Ann''"
  using getItemByPK_result[of ok_ddb "''table''" "''user#1''" empty_ddb_output native]
    getItemByPK_result[of two_items_ddb "''table''" "''user#1''"
      "\<lparr>Item = None, Items = Some [keyed_item, keyed_item]\<rparr>" native]
    getItemByPK_result[of one_item_ddb "''table''" "''user#1''"
      "\<lparr>Item = Some keyed_item, Items = Some [keyed_item]\<rparr>" native]
  by (simp add: ok_ddb_def two_items_ddb_def one_item_ddb_def empty_ddb_output_def
      string_of_nat.simps digit_char_def stripped_keyed_item)

text \<open>The read operations that strip the key attributes from what they return.\<close>

lemma getItem_strips:
  "snd (getItem conv ddb tableName key) = Inr (Some r) \<Longrightarrow> r ''PK'' = None \<and> r ''SK'' = None"
  by (auto simp: getItem_def Let_def deleteKeyFromItem_keys split: prod.splits sum.splits option.splits)

lemma getItemByPK_strips:
  "snd (getItemByPK conv ddb tableName pk) = Inr (Some r) \<Longrightarrow> r ''PK'' = None \<and> r ''SK'' = None"
  by (auto simp: getItemByPK_def Let_def deleteKeyFromItem_keys
      split: prod.splits sum.splits option.splits if_splits)

lemma getItemBySK_strips:
  "snd (getItemBySK conv ddb tableName sk) = Inr (Some r) \<Longrightarrow> r ''PK'' = None \<and> r ''SK'' = None"
  by (auto simp: getItemBySK_def Let_def deleteKeyFromItem_keys
      split: prod.splits sum.splits option.splits)

lemma getAllByPKPrefixAndSK_strips:
  "snd (getAllByPKPrefixAndSK conv ddb tableName pkPrefix sk) = Inr rs \<Longrightarrow> r \<in> set rs \<Longrightarrow>
   r ''PK'' = None \<and> r ''SK'' = None"
  by (auto simp: getAllByPKPrefixAndSK_def Let_def deleteKeyFromItem_keys
      split: prod.splits sum.splits option.splits)

text \<open>
  C2. The three list queries \<open>getItemsByPK\<close>, \<open>getItemsWithSKBeginning\<close> and
  \<open>getItemsWithSKBetween\<close> return the unmarshalled items as they are: for a response that
  holds one item with the key \<open>user#1\<close> / \<open>profile\<close>, the record returned still has its
  \<open>PK\<close> and \<open>SK\<close> attributes.
\<close>

theorem list_queries_keep_keys:
  "snd (getItemsByPK native (Some one_item_ddb) ''table'' ''user#1'')
     = Inr [unmarshall native keyed_item]
   \<and> snd (getItemsWithSKBeginning native (Some one_item_ddb) ''table'' ''user#1'' ''pro'')
     = Inr [unmarshall native keyed_item]
   \<and> snd (getItemsWithSKBetween native (Some one_item_ddb) ''table''
            \<lparr>pkVal = ''user#1'', skValFrom = ''a'', skValTo = ''z''\<rparr> None None None None None)
     = Inr [unmarshall native keyed_item]
   \<and> unmarshall native keyed_item ''PK'' = Some ''user#1''
   \<and> unmarshall native keyed_item ''SK'' = Some ''profile''"
  by (simp add: getItemsByPK_def getItemsWithSKBeginning_def getItemsWithSKBetween_def
      ddb_send_Some one_item_ddb_def unmarshalled_items_def first_item_def unmarshall_def
      keyed_item_def)

text \<open>
  C4. Through an initialised client every query operation sends exactly the query written
  out below. \<open>getItemByPK\<close> and \<open>getItemsByPK\<close> put the condition \<open>PK = :pkVal\<close> to the table
  itself, \<open>getItemsWithSKBeginning\<close> the condition \<open>PK = :pkVal AND begins_with(SK , :skVal)\<close>;
  the two operations that look up by sort key, \<open>getItemBySK\<close> and \<open>getAllByPKPrefixAndSK\<close>,
  put \<open>SK = :skVal\<close> and \<open>SK = :skVal and begins_with(PK, :pkPrefix)\<close> to the index \<open>GSI1\<close>.
  The attribute names of a query are exactly \<open>PK\<close> and \<open>SK\<close>, under the placeholders \<open>#PK\<close> and
  \<open>#SK\<close>, and only those that its condition uses. \<open>getItemsWithSKBetween\<close> puts
  \<open>PK = :pkVal AND SK BETWEEN :skValFrom AND :skValTo\<close> to the table itself when the names and
  the index are omitted, and otherwise the same condition on the attribute names it is
  given, to the index it is given. The keys marshalled for get and delete hold the
  attribute \<open>PK\<close>, the attribute \<open>SK\<close> when the key has a sort key, and no other.
\<close>

theorem queries_use_key_schema:
  "fst (getItemByPK conv (Some client) tableName pk)
       = [QueryCommand
            \<lparr>TableName = tableName, IndexName = None,
              KeyConditionExpression = ''#PK = :pkVal'',
              ExpressionAttributeNames = [(''#PK'', ''PK'')],
              ExpressionAttributeValues = [('':pkVal'', S pk)]\<rparr>]
   \<and> key_condition (getItemByPK_input tableName pk) = ''PK = :pkVal''
   \<and> fst (getItemsByPK conv (Some client) tableName pk)
       = [QueryCommand
            \<lparr>TableName = tableName, IndexName = None,
              KeyConditionExpression = ''#PK = :pkVal'',
              ExpressionAttributeNames = [(''#PK'', ''PK'')],
              ExpressionAttributeValues = [('':pkVal'', S pk)]\<rparr>]
   \<and> key_condition (getItemsByPK_input tableName pk) = ''PK = :pkVal''
   \<and> fst (getItemsWithSKBeginning conv (Some client) tableName pk sk)
       = [QueryCommand
            \<lparr>TableName = tableName, IndexName = None,
              KeyConditionExpression = ''#PK = :pkVal AND begins_with(#SK , :skVal)'',
              ExpressionAttributeNames = [(''#PK'', ''PK''), (''#SK'', ''SK'')],
              ExpressionAttributeValues = [('':pkVal'', S pk), ('':skVal'', S sk)]\<rparr>]
   \<and> key_condition (getItemsWithSKBeginning_input tableName pk sk) = ''PK = :pkVal AND begins_with(SK , :skVal)''
   \<and> fst (getItemBySK conv (Some client) tableName sk)
       = [QueryCommand
            \<lparr>TableName = tableName, IndexName = Some ''GSI1'',
              KeyConditionExpression = ''#SK = :skVal'',
              ExpressionAttributeNames = [(''#SK'', ''SK'')],
              ExpressionAttributeValues = [('':skVal'', S sk)]\<rparr>]
   \<and> key_condition (getItemBySK_input tableName sk) = ''SK = :skVal''
   \<and> fst (getAllByPKPrefixAndSK conv (Some client) tableName pkPrefix sk)
       = [QueryCommand
            \<lparr>TableName = tableName, IndexName = Some ''GSI1'',
              KeyConditionExpression = ''#SK = :skVal and begins_with(#PK, :pkPrefix)'',
              ExpressionAttributeNames = [(''#SK'', ''SK''), (''#PK'', ''PK'')],
              ExpressionAttributeValues = [('':skVal'', S sk), ('':pkPrefix'', S pkPrefix)]\<rparr>]
   \<and> key_condition (getAllByPKPrefixAndSK_input tableName pkPrefix sk) = ''SK = :skVal and begins_with(PK, :pkPrefix)''
   \<and> fst (getItemsWithSKBetween conv (Some client) tableName keyVals pkName skName pkType skType
            indexName)
       = [QueryCommand
            (getItemsWithSKBetween_input tableName keyVals pkName skName pkType skType indexName)]
   \<and> KeyConditionExpression
        (getItemsWithSKBetween_input tableName keyVals pkName skName pkType skType indexName)
       = ''#PK = :pkVal AND #SK BETWEEN :skValFrom AND :skValTo''
   \<and> ExpressionAttributeNames
        (getItemsWithSKBetween_input tableName keyVals pkName skName pkType skType indexName)
       = [(''#PK'', case pkName of None \<Rightarrow> ''PK'' | Some n \<Rightarrow> n),
          (''#SK'', case skName of None \<Rightarrow> ''SK'' | Some n \<Rightarrow> n)]
   \<and> IndexName
        (getItemsWithSKBetween_input tableName keyVals pkName skName pkType skType indexName)
       = (if truthy indexName then indexName else None)
   \<and> TableName
        (getItemsWithSKBetween_input tableName keyVals pkName skName pkType skType indexName)
       = tableName
   \<and> key_condition
        (getItemsWithSKBetween_input tableName keyVals pkName skName pkType skType indexName)
       = (case pkName of None \<Rightarrow> ''PK'' | Some n \<Rightarrow> n) @ '' = :pkVal AND ''
         @ (case skName of None \<Rightarrow> ''SK'' | Some n \<Rightarrow> n)
         @ '' BETWEEN :skValFrom AND :skValTo''
   \<and> key_condition (getItemsWithSKBetween_input tableName keyVals None None pkType skType None)
       = ''PK = :pkVal AND SK BETWEEN :skValFrom AND :skValTo''
   \<and> IndexName (getItemsWithSKBetween_input tableName keyVals None None pkType skType None) = None
   \<and> fst (getItem conv (Some client) tableName key)
       = [GetItemCommand tableName (marshall_key key)]
   \<and> fst (deleteItem (Some client) tableName key)
       = [DeleteItemCommand tableName (marshall_key key)]
   \<and> dom (marshall_key key) = (if SK key = None then {''PK''} else {''PK'', ''SK''})
   \<and> marshall_key key ''PK'' = Some (S (PK key))
   \<and> marshall_key key ''SK'' = map_option S (SK key)"
proof (intro conjI)
  show "fst (getItemByPK conv (Some client) tableName pk)
       = [QueryCommand
            \<lparr>TableName = tableName, IndexName = None,
              KeyConditionExpression = ''#PK = :pkVal'',
              ExpressionAttributeNames = [(''#PK'', ''PK'')],
              ExpressionAttributeValues = [('':pkVal'', S pk)]\<rparr>]"
    by (simp add: getItemByPK_def getItemByPK_input_def INDEX_NAME_def ddb_send_Some Let_def
        split: sum.splits option.splits prod.splits)
  show "key_condition (getItemByPK_input tableName pk) = ''PK = :pkVal''"
    by (simp add: key_condition_def getItemByPK_input_def name_char_def)
  show "fst (getItemsByPK conv (Some client) tableName pk)
       = [QueryCommand
            \<lparr>TableName = tableName, IndexName = None,
              KeyConditionExpression = ''#PK = :pkVal'',
              ExpressionAttributeNames = [(''#PK'', ''PK'')],
              ExpressionAttributeValues = [('':pkVal'', S pk)]\<rparr>]"
    by (simp add: getItemsByPK_def getItemsByPK_input_def INDEX_NAME_def ddb_send_Some Let_def
        split: sum.splits option.splits prod.splits)
  show "key_condition (getItemsByPK_input tableName pk) = ''PK = :pkVal''"
    by (simp add: key_condition_def getItemsByPK_input_def name_char_def)
  show "fst (getItemsWithSKBeginning conv (Some client) tableName pk sk)
       = [QueryCommand
            \<lparr>TableName = tableName, IndexName = None,
              KeyConditionExpression = ''#PK = :pkVal AND begins_with(#SK , :skVal)'',
              ExpressionAttributeNames = [(''#PK'', ''PK''), (''#SK'', ''SK'')],
              ExpressionAttributeValues = [('':pkVal'', S pk), ('':skVal'', S sk)]\<rparr>]"
    by (simp add: getItemsWithSKBeginning_def getItemsWithSKBeginning_input_def INDEX_NAME_def ddb_send_Some Let_def
        split: sum.splits option.splits prod.splits)
  show "key_condition (getItemsWithSKBeginning_input tableName pk sk) = ''PK = :pkVal AND begins_with(SK , :skVal)''"
    by (simp add: key_condition_def getItemsWithSKBeginning_input_def name_char_def)
  show "fst (getItemBySK conv (Some client) tableName sk)
       = [QueryCommand
            \<lparr>TableName = tableName, IndexName = Some ''GSI1'',
              KeyConditionExpression = ''#SK = :skVal'',
              ExpressionAttributeNames = [(''#SK'', ''SK'')],
              ExpressionAttributeValues = [('':skVal'', S sk)]\<rparr>]"
    by (simp add: getItemBySK_def getItemBySK_input_def INDEX_NAME_def ddb_send_Some Let_def
        split: sum.splits option.splits prod.splits)
  show "key_condition (getItemBySK_input tableName sk) = ''SK = :skVal''"
    by (simp add: key_condition_def getItemBySK_input_def name_char_def)
  show "fst (getAllByPKPrefixAndSK conv (Some client) tableName pkPrefix sk)
       = [QueryCommand
            \<lparr>TableName = tableName, IndexName = Some ''GSI1'',
              KeyConditionExpression = ''#SK = :skVal and begins_with(#PK, :pkPrefix)'',
              ExpressionAttributeNames = [(''#SK'', ''SK''), (''#PK'', ''PK'')],
              ExpressionAttributeValues = [('':skVal'', S sk), ('':pkPrefix'', S pkPrefix)]\<rparr>]"
    by (simp add: getAllByPKPrefixAndSK_def getAllByPKPrefixAndSK_input_def INDEX_NAME_def ddb_send_Some Let_def
        split: sum.splits option.splits prod.splits)
  show "key_condition (getAllByPKPrefixAndSK_input tableName pkPrefix sk) = ''SK = :skVal and begins_with(PK, :pkPrefix)''"
    by (simp add: key_condition_def getAllByPKPrefixAndSK_input_def name_char_def)
  show "fst (getItemsWithSKBetween conv (Some client) tableName keyVals pkName skName pkType skType
            indexName)
       = [QueryCommand
            (getItemsWithSKBetween_input tableName keyVals pkName skName pkType skType indexName)]"
    by (simp add: getItemsWithSKBetween_def ddb_send_Some Let_def split: sum.splits)
  show "KeyConditionExpression
        (getItemsWithSKBetween_input tableName keyVals pkName skName pkType skType indexName)
       = ''#PK = :pkVal AND #SK BETWEEN :skValFrom AND :skValTo''"
    by (simp add: getItemsWithSKBetween_input_def Let_def)
  show "ExpressionAttributeNames
        (getItemsWithSKBetween_input tableName keyVals pkName skName pkType skType indexName)
       = [(''#PK'', case pkName of None \<Rightarrow> ''PK'' | Some n \<Rightarrow> n),
          (''#SK'', case skName of None \<Rightarrow> ''SK'' | Some n \<Rightarrow> n)]"
    by (simp add: getItemsWithSKBetween_input_def Let_def)
  show "IndexName
        (getItemsWithSKBetween_input tableName keyVals pkName skName pkType skType indexName)
       = (if truthy indexName then indexName else None)"
    by (simp add: getItemsWithSKBetween_input_def Let_def)
  show "TableName
        (getItemsWithSKBetween_input tableName keyVals pkName skName pkType skType indexName)
       = tableName"
    by (simp add: getItemsWithSKBetween_input_def Let_def)
  show "key_condition
        (getItemsWithSKBetween_input tableName keyVals pkName skName pkType skType indexName)
       = (case pkName of None \<Rightarrow> ''PK'' | Some n \<Rightarrow> n) @ '' = :pkVal AND ''
         @ (case skName of None \<Rightarrow> ''SK'' | Some n \<Rightarrow> n)
         @ '' BETWEEN :skValFrom AND :skValTo''"
    by (simp add: key_condition_def getItemsWithSKBetween_input_def Let_def name_char_def)
  show "key_condition (getItemsWithSKBetween_input tableName keyVals None None pkType skType None)
       = ''PK = :pkVal AND SK BETWEEN :skValFrom AND :skValTo''"
    by (simp add: key_condition_def getItemsWithSKBetween_input_def Let_def name_char_def)
  show "IndexName (getItemsWithSKBetween_input tableName keyVals None None pkType skType None) = None"
    by (simp add: getItemsWithSKBetween_input_def Let_def)
  show "fst (getItem conv (Some client) tableName key)
       = [GetItemCommand tableName (marshall_key key)]"
    by (simp add: getItem_def ddb_send_Some Let_def split: sum.splits option.splits)
  show "fst (deleteItem (Some client) tableName key)
       = [DeleteItemCommand tableName (marshall_key key)]"
    by (simp add: deleteItem_def ddb_send_Some Let_def split: sum.splits)
  show "dom (marshall_key key) = (if SK key = None then {''PK''} else {''PK'', ''SK''})"
    by (auto simp: marshall_key_def split: option.splits if_splits)
  show "marshall_key key ''PK'' = Some (S (PK key))"
    by (simp add: marshall_key_def split: option.splits)
  show "marshall_key key ''SK'' = map_option S (SK key)"
    by (simp add: marshall_key_def split: option.splits)
qed
section \<open>The parameter-store wrapper\<close>

text \<open>The two shapes of a call: with a client, and without one (the client is constructed
  first, and the call goes on as with it).\<close>

lemma getParam_with_client:
  assumes "ssm w = Some client"
  shows "getParam new_SSMClient region w paramName decrypt =
     (let command = GetParameterCommand
            \<lparr>Name = paramName,
             WithDecryption = (case decrypt of None \<Rightarrow> True | Some d \<Rightarrow> d)\<rparr>
      in if truthy (cache w paramName) then (w, [], Inr (cache w paramName))
         else (case client command of
                 Inl err \<Rightarrow> (w, [command], Inl err)
               | Inr result \<Rightarrow>
                   (case Option.bind (Parameter result) Value of
                      None \<Rightarrow> (w, [command], Inl (TypeError set_undefined))
                    | Some s \<Rightarrow>
                        (w\<lparr>cache := (cache w)(paramName := Some s)\<rparr>, [command],
                         Inr (Some s)))))"
  using assms
  by (simp add: getParam_def Let_def cache_get_def cache_set_def
      split: sum.splits option.splits)

lemma getParam_without_client:
  assumes "ssm w = None"
  shows "getParam new_SSMClient region w paramName decrypt =
     (case new_SSMClient region of
        Inl err \<Rightarrow> (w, [], Inl err)
      | Inr client \<Rightarrow> getParam new_SSMClient region (w\<lparr>ssm := Some client\<rparr>) paramName decrypt)"
  using assms by (simp add: getParam_def Let_def SsmWrapper_init_def split: sum.splits)

text \<open>A call that finds no client constructs it and goes on as a call with that client.\<close>

lemma getParam_uses_client:
  assumes "ssm w = Some client \<or> (ssm w = None \<and> new_SSMClient region = Inr client)"
  shows "getParam new_SSMClient region w paramName decrypt
           = getParam new_SSMClient region (w\<lparr>ssm := Some client\<rparr>) paramName decrypt"
  using assms
proof
  assume "ssm w = Some client"
  then have "w\<lparr>ssm := Some client\<rparr> = w" by simp
  then show ?thesis by simp
next
  assume "ssm w = None \<and> new_SSMClient region = Inr client"
  then show ?thesis by (simp add: getParam_without_client)
qed

text \<open>The three outcomes of a call that finds no truthy value in the cache, by the answer
  of the client to the one request.\<close>

lemma getParam_fetched:
  assumes "ssm w = Some client \<or> (ssm w = None \<and> new_SSMClient region = Inr client)"
    and "\<not> truthy (cache w paramName)"
    and "client (GetParameterCommand
           \<lparr>Name = paramName,
            WithDecryption = (case decrypt of None \<Rightarrow> True | Some d \<Rightarrow> d)\<rparr>) = Inr result"
    and "Option.bind (Parameter result) Value = Some v"
  shows "getParam new_SSMClient region w paramName decrypt
           = (w\<lparr>ssm := Some client, cache := (cache w)(paramName := Some v)\<rparr>,
              [GetParameterCommand
                 \<lparr>Name = paramName,
                  WithDecryption = (case decrypt of None \<Rightarrow> True | Some d \<Rightarrow> d)\<rparr>],
              Inr (Some v))"
proof -
  have e: "getParam new_SSMClient region w paramName decrypt
             = getParam new_SSMClient region (w\<lparr>ssm := Some client\<rparr>) paramName decrypt"
    using assms(1) by (rule getParam_uses_client)
  have "ssm (w\<lparr>ssm := Some client\<rparr>) = Some client" by simp
  from getParam_with_client[OF this, of new_SSMClient region paramName decrypt] assms(2-4)
  show ?thesis unfolding e by (simp add: Let_def)
qed

lemma getParam_rejected:
  assumes "ssm w = Some client \<or> (ssm w = None \<and> new_SSMClient region = Inr client)"
    and "\<not> truthy (cache w paramName)"
    and "client (GetParameterCommand
           \<lparr>Name = paramName,
            WithDecryption = (case decrypt of None \<Rightarrow> True | Some d \<Rightarrow> d)\<rparr>) = Inl err"
  shows "getParam new_SSMClient region w paramName decrypt
           = (w\<lparr>ssm := Some client\<rparr>,
              [GetParameterCommand
                 \<lparr>Name = paramName,
                  WithDecryption = (case decrypt of None \<Rightarrow> True | Some d \<Rightarrow> d)\<rparr>],
              Inl err)"
proof -
  have e: "getParam new_SSMClient region w paramName decrypt
             = getParam new_SSMClient region (w\<lparr>ssm := Some client\<rparr>) paramName decrypt"
    using assms(1) by (rule getParam_uses_client)
  have "ssm (w\<lparr>ssm := Some client\<rparr>) = Some client" by simp
  from getParam_with_client[OF this, of new_SSMClient region paramName decrypt] assms(2-3)
  show ?thesis unfolding e by (simp add: Let_def)
qed

lemma getParam_valueless:
  assumes "ssm w = Some client \<or> (ssm w = None \<and> new_SSMClient region = Inr client)"
    and "\<not> truthy (cache w paramName)"
    and "client (GetParameterCommand
           \<lparr>Name = paramName,
            WithDecryption = (case decrypt of None \<Rightarrow> True | Some d \<Rightarrow> d)\<rparr>) = Inr result"
    and "Option.bind (Parameter result) Value = None"
  shows "getParam new_SSMClient region w paramName decrypt
           = (w\<lparr>ssm := Some client\<rparr>,
              [GetParameterCommand
                 \<lparr>Name = paramName,
                  WithDecryption = (case decrypt of None \<Rightarrow> True | Some d \<Rightarrow> d)\<rparr>],
              Inl (TypeError set_undefined))"
proof -
  have e: "getParam new_SSMClient region w paramName decrypt
             = getParam new_SSMClient region (w\<lparr>ssm := Some client\<rparr>) paramName decrypt"
    using assms(1) by (rule getParam_uses_client)
  have "ssm (w\<lparr>ssm := Some client\<rparr>) = Some client" by simp
  from getParam_with_client[OF this, of new_SSMClient region paramName decrypt] assms(2-4)
  show ?thesis unfolding e by (simp add: Let_def)
qed

lemma getParam_hit:
  assumes "truthy (cache w paramName)" and "ssm w = Some client"
  shows "getParam new_SSMClient region w paramName decrypt = (w, [], Inr (cache w paramName))"
  using assms by (simp add: getParam_with_client)

lemma getParam_hit_init:
  assumes "truthy (cache w paramName)" and "ssm w = None" and "new_SSMClient region = Inr client"
  shows "getParam new_SSMClient region w paramName decrypt
           = (w\<lparr>ssm := Some client\<rparr>, [], Inr (cache w paramName))"
  using assms by (simp add: getParam_without_client getParam_with_client)

lemma getParam_init_fails:
  assumes "ssm w = None" and "new_SSMClient region = Inl err"
  shows "getParam new_SSMClient region w paramName decrypt = (w, [], Inl err)"
  using assms by (simp add: getParam_without_client)

lemma getParam_sent_length_client:
  "ssm w \<noteq> None \<Longrightarrow>
   length (fst (snd (getParam new_SSMClient region w paramName decrypt))) \<le> 1"
  by (auto simp: getParam_with_client Let_def split: sum.splits option.splits)

lemma getParam_sent_length:
  "length (fst (snd (getParam new_SSMClient region w paramName decrypt))) \<le> 1"
proof (cases "ssm w")
  case None
  show ?thesis
  proof (cases "new_SSMClient region")
    case (Inl err)
    with None show ?thesis by (simp add: getParam_without_client)
  next
    case (Inr client)
    have "ssm (w\<lparr>ssm := Some client\<rparr>) \<noteq> None" by simp
    from getParam_sent_length_client[OF this, of new_SSMClient region paramName decrypt]
    show ?thesis using None Inr by (simp add: getParam_without_client)
  qed
next
  case (Some client)
  then have "ssm w \<noteq> None" by simp
  then show ?thesis by (rule getParam_sent_length_client)
qed

lemma getParam_sent_hit:
  assumes "truthy (cache w paramName)"
  shows "fst (snd (getParam new_SSMClient region w paramName decrypt)) = []
   \<and> cache (fst (getParam new_SSMClient region w paramName decrypt)) = cache w"
proof (cases "ssm w")
  case None
  with assms show ?thesis
    by (cases "new_SSMClient region") (simp_all add: getParam_without_client getParam_with_client)
next
  case (Some client)
  with assms show ?thesis by (simp add: getParam_with_client)
qed

lemma getParam_miss_client:
  assumes "ssm w = Some client" and "\<not> truthy (cache w paramName)"
    and "snd (snd (getParam new_SSMClient region w paramName decrypt)) = Inr v"
  shows "fst (snd (getParam new_SSMClient region w paramName decrypt))
           = [GetParameterCommand
                \<lparr>Name = paramName,
                 WithDecryption = (case decrypt of None \<Rightarrow> True | Some d \<Rightarrow> d)\<rparr>]
         \<and> cache (fst (getParam new_SSMClient region w paramName decrypt)) paramName = v"
  using assms by (auto simp: getParam_with_client Let_def split: sum.splits option.splits)

lemma getParam_miss:
  assumes "\<not> truthy (cache w paramName)"
    and "snd (snd (getParam new_SSMClient region w paramName decrypt)) = Inr v"
  shows "fst (snd (getParam new_SSMClient region w paramName decrypt))
           = [GetParameterCommand
                \<lparr>Name = paramName,
                 WithDecryption = (case decrypt of None \<Rightarrow> True | Some d \<Rightarrow> d)\<rparr>]
         \<and> cache (fst (getParam new_SSMClient region w paramName decrypt)) paramName = v"
proof (cases "ssm w")
  case (Some client)
  from getParam_miss_client[OF this assms] show ?thesis .
next
  case None
  show ?thesis
  proof (cases "new_SSMClient region")
    case (Inl err)
    with None assms(2) show ?thesis by (simp add: getParam_without_client)
  next
    case (Inr client)
    with None have eq: "getParam new_SSMClient region w paramName decrypt
        = getParam new_SSMClient region (w\<lparr>ssm := Some client\<rparr>) paramName decrypt"
      by (simp add: getParam_without_client)
    have "ssm (w\<lparr>ssm := Some client\<rparr>) = Some client" by simp
    from getParam_miss_client[OF this, of paramName new_SSMClient region decrypt v] assms eq
    show ?thesis by simp
  qed
qed

lemma getParam_returned_state_client:
  assumes "ssm w = Some client"
    and "snd (snd (getParam new_SSMClient region w paramName decrypt)) = Inr v"
  shows "ssm (fst (getParam new_SSMClient region w paramName decrypt)) \<noteq> None
         \<and> cache (fst (getParam new_SSMClient region w paramName decrypt)) paramName = v"
  using assms
  by (auto simp: getParam_with_client Let_def split: sum.splits if_splits option.splits)

lemma getParam_returned_state:
  assumes "snd (snd (getParam new_SSMClient region w paramName decrypt)) = Inr v"
  shows "ssm (fst (getParam new_SSMClient region w paramName decrypt)) \<noteq> None
         \<and> cache (fst (getParam new_SSMClient region w paramName decrypt)) paramName = v"
proof (cases "ssm w")
  case (Some client)
  from getParam_returned_state_client[OF this assms] show ?thesis .
next
  case None
  show ?thesis
  proof (cases "new_SSMClient region")
    case (Inl err)
    with None assms show ?thesis by (simp add: getParam_without_client)
  next
    case (Inr client)
    with None have eq: "getParam new_SSMClient region w paramName decrypt
        = getParam new_SSMClient region (w\<lparr>ssm := Some client\<rparr>) paramName decrypt"
      by (simp add: getParam_without_client)
    have "ssm (w\<lparr>ssm := Some client\<rparr>) = Some client" by simp
    from getParam_returned_state_client[OF this, of new_SSMClient region paramName decrypt v]
      assms eq
    show ?thesis by simp
  qed
qed

lemma getParam_again:
  assumes "snd (snd (getParam new_SSMClient region w paramName decrypt)) = Inr (Some v)"
    and "v \<noteq> []"
  shows "getParam new_SSMClient region (fst (getParam new_SSMClient region w paramName decrypt))
           paramName decrypt'
         = (fst (getParam new_SSMClient region w paramName decrypt), [], Inr (Some v))"
proof -
  let ?w' = "fst (getParam new_SSMClient region w paramName decrypt)"
  from getParam_returned_state[OF assms(1)]
  obtain client where c: "ssm ?w' = Some client" and v: "cache ?w' paramName = Some v"
    by auto
  from v assms(2) have "truthy (cache ?w' paramName)" by simp
  from getParam_hit[OF this c] v show ?thesis by simp
qed

text \<open>
  C7. A call of \<open>getParamValue\<close> sends at most one request. When the cache holds a truthy
  value under the name, nothing is sent, the cache is left as it is, and the cached value is
  returned (provided the client exists or can be constructed). Otherwise the call sends
  exactly the one request for that name to the client it has or constructs, and its outcome
  is fixed by the answer: a value \<open>val\<close> in the answer is returned and is what the cache then
  holds under the name, every other entry as before; a rejected request is thrown on and
  the cache is left as it is; an answer without a value makes the cache throw a \<open>TypeError\<close>,
  which is thrown on, the cache left as it is. When no client exists and none can be
  constructed, the failure of the construction is thrown and nothing is sent. A call that
  returns after a miss has stored the value it returns. A second call with the same name,
  after a call that returned a non-empty value, returns that value and sends nothing.
\<close>

theorem getParamValue_requests:
  "length (fst (snd (getParamValue new_SSMClient region w paramName decrypt))) \<le> 1
   \<and> (truthy (cache w paramName)
        \<longrightarrow> fst (snd (getParamValue new_SSMClient region w paramName decrypt)) = []
            \<and> cache (fst (getParamValue new_SSMClient region w paramName decrypt)) = cache w
            \<and> (ssm w \<noteq> None \<or> \<not> isl (new_SSMClient region)
                 \<longrightarrow> snd (snd (getParamValue new_SSMClient region w paramName decrypt))
                       = Inr (cache w paramName)))
   \<and> ((ssm w = Some client \<or> (ssm w = None \<and> new_SSMClient region = Inr client))
        \<and> \<not> truthy (cache w paramName)
        \<longrightarrow> (\<forall>answer val.
               client (GetParameterCommand
                         \<lparr>Name = paramName,
                          WithDecryption = (case decrypt of None \<Rightarrow> True | Some d \<Rightarrow> d)\<rparr>)
                 = Inr answer
               \<and> Option.bind (Parameter answer) Value = Some val
               \<longrightarrow> snd (getParamValue new_SSMClient region w paramName decrypt)
                     = ([GetParameterCommand
                           \<lparr>Name = paramName,
                            WithDecryption = (case decrypt of None \<Rightarrow> True | Some d \<Rightarrow> d)\<rparr>],
                        Inr (Some val))
                   \<and> cache (fst (getParamValue new_SSMClient region w paramName decrypt))
                       = (cache w)(paramName := Some val))
          \<and> (\<forall>err.
               client (GetParameterCommand
                         \<lparr>Name = paramName,
                          WithDecryption = (case decrypt of None \<Rightarrow> True | Some d \<Rightarrow> d)\<rparr>)
                 = Inl err
               \<longrightarrow> snd (getParamValue new_SSMClient region w paramName decrypt)
                     = ([GetParameterCommand
                           \<lparr>Name = paramName,
                            WithDecryption = (case decrypt of None \<Rightarrow> True | Some d \<Rightarrow> d)\<rparr>],
                        Inl err)
                   \<and> cache (fst (getParamValue new_SSMClient region w paramName decrypt))
                       = cache w)
          \<and> (\<forall>answer.
               client (GetParameterCommand
                         \<lparr>Name = paramName,
                          WithDecryption = (case decrypt of None \<Rightarrow> True | Some d \<Rightarrow> d)\<rparr>)
                 = Inr answer
               \<and> Option.bind (Parameter answer) Value = None
               \<longrightarrow> snd (getParamValue new_SSMClient region w paramName decrypt)
                     = ([GetParameterCommand
                           \<lparr>Name = paramName,
                            WithDecryption = (case decrypt of None \<Rightarrow> True | Some d \<Rightarrow> d)\<rparr>],
                        Inl (TypeError set_undefined))
                   \<and> cache (fst (getParamValue new_SSMClient region w paramName decrypt))
                       = cache w))
   \<and> (\<forall>err. ssm w = None \<and> new_SSMClient region = Inl err
        \<longrightarrow> getParamValue new_SSMClient region w paramName decrypt = (w, [], Inl err))
   \<and> (\<forall>v. \<not> truthy (cache w paramName)
          \<and> snd (snd (getParamValue new_SSMClient region w paramName decrypt)) = Inr v
        \<longrightarrow> fst (snd (getParamValue new_SSMClient region w paramName decrypt))
              = [GetParameterCommand
                   \<lparr>Name = paramName,
                    WithDecryption = (case decrypt of None \<Rightarrow> True | Some d \<Rightarrow> d)\<rparr>]
            \<and> cache (fst (getParamValue new_SSMClient region w paramName decrypt)) paramName = v)
   \<and> (\<forall>v. snd (snd (getParamValue new_SSMClient region w paramName decrypt)) = Inr (Some v)
          \<and> v \<noteq> []
        \<longrightarrow> snd (getParamValue new_SSMClient region
                   (fst (getParamValue new_SSMClient region w paramName decrypt)) paramName decrypt')
              = ([], Inr (Some v)))"
proof (intro conjI allI impI)
  show "length (fst (snd (getParamValue new_SSMClient region w paramName decrypt))) \<le> 1"
    unfolding getParamValue_def by (rule getParam_sent_length)
next
  assume "truthy (cache w paramName)"
  then show "fst (snd (getParamValue new_SSMClient region w paramName decrypt)) = []"
    and "cache (fst (getParamValue new_SSMClient region w paramName decrypt)) = cache w"
    by (simp_all add: getParamValue_def getParam_sent_hit)
next
  assume hit: "truthy (cache w paramName)"
    and ok: "ssm w \<noteq> None \<or> \<not> isl (new_SSMClient region)"
  show "snd (snd (getParamValue new_SSMClient region w paramName decrypt))
          = Inr (cache w paramName)"
  proof (cases "ssm w")
    case (Some client)
    with hit show ?thesis by (simp add: getParamValue_def getParam_hit)
  next
    case None
    with ok obtain client where "new_SSMClient region = Inr client"
      by (cases "new_SSMClient region") auto
    with hit None show ?thesis by (simp add: getParamValue_def getParam_hit_init)
  qed
next
  fix answer val
  assume c: "(ssm w = Some client \<or> (ssm w = None \<and> new_SSMClient region = Inr client))
             \<and> \<not> truthy (cache w paramName)"
    and a: "client (GetParameterCommand
                      \<lparr>Name = paramName,
                       WithDecryption = (case decrypt of None \<Rightarrow> True | Some d \<Rightarrow> d)\<rparr>)
              = Inr answer
            \<and> Option.bind (Parameter answer) Value = Some val"
  from c a have "getParam new_SSMClient region w paramName decrypt
           = (w\<lparr>ssm := Some client, cache := (cache w)(paramName := Some val)\<rparr>,
              [GetParameterCommand
                 \<lparr>Name = paramName,
                  WithDecryption = (case decrypt of None \<Rightarrow> True | Some d \<Rightarrow> d)\<rparr>],
              Inr (Some val))"
    by (intro getParam_fetched[where result = answer]) blast+
  then show "snd (getParamValue new_SSMClient region w paramName decrypt)
               = ([GetParameterCommand
                     \<lparr>Name = paramName,
                      WithDecryption = (case decrypt of None \<Rightarrow> True | Some d \<Rightarrow> d)\<rparr>],
                  Inr (Some val))"
    and "cache (fst (getParamValue new_SSMClient region w paramName decrypt))
           = (cache w)(paramName := Some val)"
    by (simp_all add: getParamValue_def)
next
  fix err
  assume c: "(ssm w = Some client \<or> (ssm w = None \<and> new_SSMClient region = Inr client))
             \<and> \<not> truthy (cache w paramName)"
    and a: "client (GetParameterCommand
                      \<lparr>Name = paramName,
                       WithDecryption = (case decrypt of None \<Rightarrow> True | Some d \<Rightarrow> d)\<rparr>)
              = Inl err"
  from c a have "getParam new_SSMClient region w paramName decrypt
           = (w\<lparr>ssm := Some client\<rparr>,
              [GetParameterCommand
                 \<lparr>Name = paramName,
                  WithDecryption = (case decrypt of None \<Rightarrow> True | Some d \<Rightarrow> d)\<rparr>],
              Inl err)"
    by (intro getParam_rejected) blast+
  then show "snd (getParamValue new_SSMClient region w paramName decrypt)
               = ([GetParameterCommand
                     \<lparr>Name = paramName,
                      WithDecryption = (case decrypt of None \<Rightarrow> True | Some d \<Rightarrow> d)\<rparr>],
                  Inl err)"
    and "cache (fst (getParamValue new_SSMClient region w paramName decrypt)) = cache w"
    by (simp_all add: getParamValue_def)
next
  fix answer
  assume c: "(ssm w = Some client \<or> (ssm w = None \<and> new_SSMClient region = Inr client))
             \<and> \<not> truthy (cache w paramName)"
    and a: "client (GetParameterCommand
                      \<lparr>Name = paramName,
                       WithDecryption = (case decrypt of None \<Rightarrow> True | Some d \<Rightarrow> d)\<rparr>)
              = Inr answer
            \<and> Option.bind (Parameter answer) Value = None"
  from c a have "getParam new_SSMClient region w paramName decrypt
           = (w\<lparr>ssm := Some client\<rparr>,
              [GetParameterCommand
                 \<lparr>Name = paramName,
                  WithDecryption = (case decrypt of None \<Rightarrow> True | Some d \<Rightarrow> d)\<rparr>],
              Inl (TypeError set_undefined))"
    by (intro getParam_valueless[where result = answer]) blast+
  then show "snd (getParamValue new_SSMClient region w paramName decrypt)
               = ([GetParameterCommand
                     \<lparr>Name = paramName,
                      WithDecryption = (case decrypt of None \<Rightarrow> True | Some d \<Rightarrow> d)\<rparr>],
                  Inl (TypeError set_undefined))"
    and "cache (fst (getParamValue new_SSMClient region w paramName decrypt)) = cache w"
    by (simp_all add: getParamValue_def)
next
  fix err
  assume "ssm w = None \<and> new_SSMClient region = Inl err"
  then show "getParamValue new_SSMClient region w paramName decrypt = (w, [], Inl err)"
    by (simp add: getParamValue_def getParam_init_fails)
next
  fix v
  assume "\<not> truthy (cache w paramName)
          \<and> snd (snd (getParamValue new_SSMClient region w paramName decrypt)) = Inr v"
  then show "fst (snd (getParamValue new_SSMClient region w paramName decrypt))
              = [GetParameterCommand
                   \<lparr>Name = paramName,
                    WithDecryption = (case decrypt of None \<Rightarrow> True | Some d \<Rightarrow> d)\<rparr>]"
    and "cache (fst (getParamValue new_SSMClient region w paramName decrypt)) paramName = v"
    using getParam_miss[of w paramName new_SSMClient region decrypt v]
    by (simp_all add: getParamValue_def)
next
  fix v
  assume "snd (snd (getParamValue new_SSMClient region w paramName decrypt)) = Inr (Some v)
          \<and> v \<noteq> []"
  then show "snd (getParamValue new_SSMClient region
                   (fst (getParamValue new_SSMClient region w paramName decrypt)) paramName decrypt')
              = ([], Inr (Some v))"
    using getParam_again[of new_SSMClient region w paramName decrypt v decrypt']
    by (simp add: getParamValue_def)
qed

text \<open>The store that knows the value answers the first call, which keeps the value; the
  second call sends nothing. A store that rejects the request, and one that answers without
  a value, make the call throw after its one request.\<close>

theorem getParamValue_requests_witness:
  "snd (getParamValue new_param_ssm ''eu-west-1'' fresh_SsmWrapper ''someparam'' None)
     = ([GetParameterCommand \<lparr>Name = ''someparam'', WithDecryption = True\<rparr>], Inr (Some ''secret''))
   \<and> cache (fst (getParamValue new_param_ssm ''eu-west-1'' fresh_SsmWrapper ''someparam'' None))
       ''someparam'' = Some ''secret''
   \<and> snd (getParamValue new_param_ssm ''eu-west-1''
            (fst (getParamValue new_param_ssm ''eu-west-1'' fresh_SsmWrapper ''someparam'' None))
            ''someparam'' None)
     = ([], Inr (Some ''secret''))
   \<and> snd (getParamValue new_param_ssm ''eu-west-1''
            (fresh_SsmWrapper\<lparr>ssm := Some failing_ssm\<rparr>) ''someparam'' None)
     = ([GetParameterCommand \<lparr>Name = ''someparam'', WithDecryption = True\<rparr>],
        Inl (ServiceException ''ParameterNotFound''))
   \<and> snd (getParamValue new_param_ssm ''eu-west-1''
            (fresh_SsmWrapper\<lparr>ssm := Some valueless_ssm\<rparr>) ''someparam'' None)
     = ([GetParameterCommand \<lparr>Name = ''someparam'', WithDecryption = True\<rparr>],
        Inl (TypeError set_undefined))"
proof -
  note known = getParamValue_requests[where new_SSMClient = new_param_ssm
      and region = "''eu-west-1''" and w = fresh_SsmWrapper and paramName = "''someparam''"
      and decrypt = None and decrypt' = None and client = param_ssm]
  note rejecting = getParamValue_requests[where new_SSMClient = new_param_ssm
      and region = "''eu-west-1''" and w = "fresh_SsmWrapper\<lparr>ssm := Some failing_ssm\<rparr>"
      and paramName = "''someparam''" and decrypt = None and client = failing_ssm,
      THEN conjunct2, THEN conjunct2, THEN conjunct1]
  note valueless = getParamValue_requests[where new_SSMClient = new_param_ssm
      and region = "''eu-west-1''" and w = "fresh_SsmWrapper\<lparr>ssm := Some valueless_ssm\<rparr>"
      and paramName = "''someparam''" and decrypt = None and client = valueless_ssm,
      THEN conjunct2, THEN conjunct2, THEN conjunct1]
  have miss: "\<not> truthy (cache fresh_SsmWrapper ''someparam'')"
    and none: "ssm fresh_SsmWrapper = None"
    by (simp_all add: fresh_SsmWrapper_def)
  have new: "new_param_ssm ''eu-west-1'' = Inr param_ssm" by (simp add: new_param_ssm_def)
  have ans: "param_ssm (GetParameterCommand \<lparr>Name = ''someparam'', WithDecryption = True\<rparr>)
               = Inr secret_output"
    "Option.bind (Parameter secret_output) Value = Some ''secret''"
    by (simp_all add: param_ssm_def secret_output_def)
  from known[THEN conjunct2, THEN conjunct2, THEN conjunct1] miss none new ans
  have first: "snd (getParamValue new_param_ssm ''eu-west-1'' fresh_SsmWrapper ''someparam'' None)
      = ([GetParameterCommand \<lparr>Name = ''someparam'', WithDecryption = True\<rparr>],
         Inr (Some ''secret''))
    \<and> cache (fst (getParamValue new_param_ssm ''eu-west-1'' fresh_SsmWrapper ''someparam'' None))
        = (cache fresh_SsmWrapper)(''someparam'' := Some ''secret'')"
    by simp
  from known[THEN conjunct2, THEN conjunct2, THEN conjunct2, THEN conjunct2, THEN conjunct2]
    first
  have again: "snd (getParamValue new_param_ssm ''eu-west-1''
            (fst (getParamValue new_param_ssm ''eu-west-1'' fresh_SsmWrapper ''someparam'' None))
            ''someparam'' None)
     = ([], Inr (Some ''secret''))"
    by simp
  have "failing_ssm (GetParameterCommand \<lparr>Name = ''someparam'', WithDecryption = True\<rparr>)
          = Inl (ServiceException ''ParameterNotFound'')"
    by (simp add: failing_ssm_def)
  with rejecting miss
  have rejected: "snd (getParamValue new_param_ssm ''eu-west-1''
            (fresh_SsmWrapper\<lparr>ssm := Some failing_ssm\<rparr>) ''someparam'' None)
     = ([GetParameterCommand \<lparr>Name = ''someparam'', WithDecryption = True\<rparr>],
        Inl (ServiceException ''ParameterNotFound''))"
    by simp
  have "valueless_ssm (GetParameterCommand \<lparr>Name = ''someparam'', WithDecryption = True\<rparr>)
          = Inr \<lparr>Parameter = None\<rparr>"
    "Option.bind (Parameter \<lparr>Parameter = None\<rparr>) Value = None"
    by (simp_all add: valueless_ssm_def)
  with valueless miss
  have no_value: "snd (getParamValue new_param_ssm ''eu-west-1''
            (fresh_SsmWrapper\<lparr>ssm := Some valueless_ssm\<rparr>) ''someparam'' None)
     = ([GetParameterCommand \<lparr>Name = ''someparam'', WithDecryption = True\<rparr>],
        Inl (TypeError set_undefined))"
    by simp
  from first again rejected no_value show ?thesis by simp
qed
section \<open>The object-store wrapper: the sorted listing\<close>



subsection \<open>The sort keeps the elements\<close>

lemma mset_take_drop: "mset (take n work) + mset (drop n work) = mset work"
  by (simp flip: mset_append)

lemma mset_insert_at: "mset (take n work @ pivot # drop n work) = add_mset pivot (mset work)"
  by (simp add: mset_take_drop)




subsection \<open>The sort orders the elements that the comparator orders by a key\<close>

text \<open>In this subsection \<open>k\<close> is a key such that, on the elements of the array, the comparator
  puts \<open>a\<close> before \<open>b\<close> exactly when the key of \<open>a\<close> is greater.\<close>

lemma run_rest_le: "run_rest comparefn d previous xs \<le> length xs"
  by (induction xs arbitrary: previous) (simp_all add: Let_def)






lemma CountAndMakeRun_length:
  "fst (CountAndMakeRun comparefn xs) \<le> length (snd (CountAndMakeRun comparefn xs))"
  using run_rest_le[of comparefn]
  by (auto simp: CountAndMakeRun_def Let_def split: list.splits)















section \<open>The object-store wrapper: the paginated listing\<close>

lemma foldl_push:
  "foldl (\<lambda>acc file. case as_truthy (Key file) of Some key \<Rightarrow> acc @ [key] | None \<Rightarrow> acc)
     results files
   = results @ List.map_filter (\<lambda>f. as_truthy (Key f)) files"
  by (induction files arbitrary: results) (simp_all add: List.map_filter_simps split: option.splits)

lemma push_keys_append: "push_keys results page = results @ page_keys page"
  by (simp add: push_keys_def page_keys_def foldl_push split: option.splits)

lemma listing_requests_Cons:
  "later \<noteq> [] \<Longrightarrow>
   listing_requests params (page # later)
     = ListObjectsV2Command params
       # listing_requests (params\<lparr>ContinuationToken := NextContinuationToken page\<rparr>) later"
  by (simp add: listing_requests_def)

lemma listing_requests_single: "listing_requests params [page] = [ListObjectsV2Command params]"
  by (simp add: listing_requests_def)

text \<open>The loop follows the pages: it returns, having sent the requests of the listing and
  collected the keys of every page.\<close>

lemma listing_loop_paged:
  assumes "paged s3 params pages" and "h r = params"
  shows "listing_loop s3 r r h results sent
           = Some (sent @ listing_requests params pages,
                   Inr (results @ concat (map page_keys pages)))"
  using assms
proof (induction pages arbitrary: h params results sent)
  case Nil
  then show ?case by simp
next
  case (Cons page later)
  from Cons.prems have page: "s3 (ListObjectsV2Command (h r)) = Inr page" by simp
  show ?case
  proof (cases "later = []")
    case True
    with Cons.prems have "\<not> truthy_bool (IsTruncated page)" by simp
    with page True Cons.prems(2) show ?thesis
      by (subst listing_loop.simps)
        (simp add: s3_send_def Let_def push_keys_append listing_requests_single)
  next
    case False
    define params' where "params' = params\<lparr>ContinuationToken := NextContinuationToken page\<rparr>"
    define h' where "h' = h(r := (h r)\<lparr>ContinuationToken := NextContinuationToken page\<rparr>)"
    from False Cons.prems have tr: "truthy_bool (IsTruncated page)"
      and nxt: "paged s3 params' later" by (simp_all add: params'_def)
    have hr: "h' r = params'" using Cons.prems(2) by (simp add: h'_def params'_def)
    have "listing_loop s3 r r h' (results @ page_keys page) (sent @ [ListObjectsV2Command params])
            = Some ((sent @ [ListObjectsV2Command params]) @ listing_requests params' later,
                    Inr ((results @ page_keys page) @ concat (map page_keys later)))"
      using nxt hr by (rule Cons.IH)
    with page tr False Cons.prems(2) show ?thesis
      by (subst listing_loop.simps)
        (simp add: s3_send_def Let_def push_keys_append listing_requests_Cons h'_def params'_def)
  qed
qed

lemma getListOfFileKeys_paged:
  assumes "getS3 new_S3Client w = Inr (s3, w')"
    and "paged s3 \<lparr>Bucket = bucket, MaxKeys = Some 100, Prefix = pfx, ContinuationToken = None\<rparr> pages"
  shows "getListOfFileKeys new_S3Client w bucket pfx
           = Some (w',
               listing_requests
                 \<lparr>Bucket = bucket, MaxKeys = Some 100, Prefix = pfx, ContinuationToken = None\<rparr> pages,
               Inr (concat (map page_keys pages)))"
proof -
  let ?p = "\<lparr>Bucket = bucket, MaxKeys = Some 100, Prefix = pfx, ContinuationToken = None\<rparr>"
  have "(\<lambda>_. ?p) (0::nat) = ?p" by simp
  with assms(2)
  have "listing_loop s3 0 0 (\<lambda>_. ?p) [] []
          = Some ([] @ listing_requests ?p pages, Inr ([] @ concat (map page_keys pages)))"
    by (rule listing_loop_paged)
  then have "listing_loop s3 0 0 (\<lambda>_. ?p) [] []
          = Some (listing_requests ?p pages, Inr (concat (map page_keys pages)))" by simp
  with assms(1) show ?thesis
    by (simp add: getListOfFileKeys_def Let_def)
qed

text \<open>
  C9. For every listing whose pages the service answers one after the other, each page but
  the last truncated and the last not, \<open>getListOfFileKeys\<close> returns: it has sent one
  request per page, the first without a continuation token and each later one with the token
  of the page before, and its result is the keys of all the pages in order.
\<close>

theorem getListOfFileKeys_pages:
  assumes "getS3 new_S3Client w = Inr (s3, w')"
    and "paged s3 \<lparr>Bucket = bucket, MaxKeys = Some 100, Prefix = pfx, ContinuationToken = None\<rparr> pages"
  shows "getListOfFileKeys new_S3Client w bucket pfx
           = Some (w',
               listing_requests
                 \<lparr>Bucket = bucket, MaxKeys = Some 100, Prefix = pfx, ContinuationToken = None\<rparr> pages,
               Inr (concat (map page_keys pages)))
         \<and> length (listing_requests
               \<lparr>Bucket = bucket, MaxKeys = Some 100, Prefix = pfx, ContinuationToken = None\<rparr> pages)
             = length pages
         \<and> map (\<lambda>c. case c of ListObjectsV2Command p \<Rightarrow> ContinuationToken p | _ \<Rightarrow> None)
             (listing_requests
               \<lparr>Bucket = bucket, MaxKeys = Some 100, Prefix = pfx, ContinuationToken = None\<rparr> pages)
             = None # map NextContinuationToken (butlast pages)"
proof -
  let ?p = "\<lparr>Bucket = bucket, MaxKeys = Some 100, Prefix = pfx, ContinuationToken = None\<rparr>"
  from assms(2) have ne: "pages \<noteq> []" by auto
  then have "length (listing_requests ?p pages) = length pages"
    by (simp add: listing_requests_def)
  moreover have "map (\<lambda>c. case c of ListObjectsV2Command p \<Rightarrow> ContinuationToken p | _ \<Rightarrow> None)
             (listing_requests ?p pages) = None # map NextContinuationToken (butlast pages)"
    by (simp add: listing_requests_def comp_def)
  ultimately show ?thesis using getListOfFileKeys_paged[OF assms] by simp
qed

lemma two_pages: 
  "paged two_page_s3
     \<lparr>Bucket = ''bucket'', MaxKeys = Some 100, Prefix = None, ContinuationToken = None\<rparr>
     [page_one, page_two]"
  by (simp add: page_one_def page_two_def)

theorem getListOfFileKeys_pages_witness:
  "map_option snd (getListOfFileKeys new_two_page_s3 fresh_S3Wrapper ''bucket'' None)
     = Some ([ListObjectsV2Command
                \<lparr>Bucket = ''bucket'', MaxKeys = Some 100, Prefix = None, ContinuationToken = None\<rparr>,
              ListObjectsV2Command
                \<lparr>Bucket = ''bucket'', MaxKeys = Some 100, Prefix = None,
                 ContinuationToken = Some ''token-1''\<rparr>],
             Inr [''a.csv'', ''b.csv'', ''c.csv''])"
proof -
  have g: "getS3 new_two_page_s3 fresh_S3Wrapper
             = Inr (two_page_s3, fresh_S3Wrapper\<lparr>s3Client := Some two_page_s3\<rparr>)"
    by (simp add: getS3_def initialise_def fresh_S3Wrapper_def new_two_page_s3_def)
  from getListOfFileKeys_pages[OF g two_pages]
  show ?thesis
    by (simp add: listing_requests_def page_keys_def page_one_def page_two_def
        List.map_filter_simps)
qed

text \<open>A service that answers every request with a truncated page keeps the loop running:
  the call never returns.\<close>

lemma listing_loop_returns_only_if:
  assumes "listing_loop s3 r r' h results sent = Some y"
  shows "\<not> (\<forall>c. \<exists>page. s3 c = Inr page \<and> truthy_bool (IsTruncated page))"
  using assms
proof (rule listing_loop.raw_induct[rotated,
    where P = "\<lambda>s3 _ _ _ _ _ _. \<not> (\<forall>c. \<exists>page. s3 c = Inr page \<and> truthy_bool (IsTruncated page))"])
  fix loop s3' ci lp h' res snt y'
  assume IH: "\<And>s3 ci lp h res snt y. loop s3 ci lp h res snt = Some y \<Longrightarrow>
                \<not> (\<forall>c. \<exists>page. s3 c = Inr page \<and> truthy_bool (IsTruncated page))"
    and body: "(case s3_send s3' (ListObjectsV2Command (h' ci)) of
                  (t, Inl err) \<Rightarrow> Some (snt @ t, Inl err)
                | (t, Inr result) \<Rightarrow>
                    (let isTruncated = truthy_bool (IsTruncated result);
                         h'' = h'(lp := (h' lp)\<lparr>ContinuationToken := NextContinuationToken result\<rparr>);
                         results' = push_keys res result
                     in if isTruncated then loop s3' ci lp h'' results' (snt @ t)
                        else Some (snt @ t, Inr results'))) = Some y'"
  show "\<not> (\<forall>c. \<exists>page. s3' c = Inr page \<and> truthy_bool (IsTruncated page))"
  proof
    assume always: "\<forall>c. \<exists>page. s3' c = Inr page \<and> truthy_bool (IsTruncated page)"
    then obtain page where "s3' (ListObjectsV2Command (h' ci)) = Inr page"
      and "truthy_bool (IsTruncated page)" by blast
    with body have "loop s3' ci lp
        (h'(lp := (h' lp)\<lparr>ContinuationToken := NextContinuationToken page\<rparr>))
        (push_keys res page) (snt @ [ListObjectsV2Command (h' ci)]) = Some y'"
      by (simp add: s3_send_def Let_def)
    from IH[OF this] always show False by blast
  qed
qed

lemma listing_loop_never_returns:
  assumes "\<forall>c. \<exists>page. s3 c = Inr page \<and> truthy_bool (IsTruncated page)"
  shows "listing_loop s3 r r' h results sent = None"
  using assms listing_loop_returns_only_if[of s3 r r' h results sent]
  by (cases "listing_loop s3 r r' h results sent") auto


text \<open>A listing whose request is rejected after some truncated pages ends there: the call
  throws the value of the rejection, having sent one request per page and the rejected
  one.\<close>

lemma requests_until_rejected_Nil:
  "requests_until_rejected params [] = [ListObjectsV2Command params]"
  by (simp add: requests_until_rejected_def)

lemma requests_until_rejected_Cons:
  "requests_until_rejected params (page # later)
     = ListObjectsV2Command params
       # requests_until_rejected (params\<lparr>ContinuationToken := NextContinuationToken page\<rparr>) later"
  by (simp add: requests_until_rejected_def)

lemma listing_loop_rejected:
  assumes "rejected_after s3 params pages err" and "h r = params"
  shows "listing_loop s3 r r h results sent
           = Some (sent @ requests_until_rejected params pages, Inl err)"
  using assms
proof (induction pages arbitrary: h params results sent)
  case Nil
  then have "s3 (ListObjectsV2Command (h r)) = Inl err" by simp
  with Nil.prems(2) show ?case
    by (subst listing_loop.simps) (simp add: s3_send_def requests_until_rejected_Nil)
next
  case (Cons page later)
  define params' where "params' = params\<lparr>ContinuationToken := NextContinuationToken page\<rparr>"
  define h' where "h' = h(r := (h r)\<lparr>ContinuationToken := NextContinuationToken page\<rparr>)"
  from Cons.prems have page: "s3 (ListObjectsV2Command (h r)) = Inr page"
    and tr: "truthy_bool (IsTruncated page)"
    and nxt: "rejected_after s3 params' later err" by (simp_all add: params'_def)
  have hr: "h' r = params'" using Cons.prems(2) by (simp add: h'_def params'_def)
  have "listing_loop s3 r r h' (results @ page_keys page) (sent @ [ListObjectsV2Command params])
          = Some ((sent @ [ListObjectsV2Command params]) @ requests_until_rejected params' later,
                  Inl err)"
    using nxt hr by (rule Cons.IH)
  with page tr Cons.prems(2) show ?case
    by (subst listing_loop.simps)
      (simp add: s3_send_def Let_def push_keys_append requests_until_rejected_Cons h'_def
        params'_def)
qed

lemma getListOfFileKeys_rejected:
  assumes "getS3 new_S3Client w = Inr (s3, w')"
    and "rejected_after s3
           \<lparr>Bucket = bucket, MaxKeys = Some 100, Prefix = pfx, ContinuationToken = None\<rparr> pages err"
  shows "getListOfFileKeys new_S3Client w bucket pfx
           = Some (w',
               requests_until_rejected
                 \<lparr>Bucket = bucket, MaxKeys = Some 100, Prefix = pfx, ContinuationToken = None\<rparr> pages,
               Inl err)"
proof -
  let ?p = "\<lparr>Bucket = bucket, MaxKeys = Some 100, Prefix = pfx, ContinuationToken = None\<rparr>"
  have "(\<lambda>_. ?p) (0::nat) = ?p" by simp
  with assms(2)
  have "listing_loop s3 0 0 (\<lambda>_. ?p) [] [] = Some ([] @ requests_until_rejected ?p pages, Inl err)"
    by (rule listing_loop_rejected)
  with assms(1) show ?thesis
    by (simp add: getListOfFileKeys_def Let_def)
qed

lemma rejected_listing:
  "rejected_after rejecting_s3
     \<lparr>Bucket = ''bucket'', MaxKeys = Some 100, Prefix = None, ContinuationToken = None\<rparr>
     [page_one] (ServiceException ''SlowDown'')"
  by (simp add: page_one_def)
section \<open>Requests per call and the propagation of failures\<close>

lemma rethrows_Nil: "fst r = [] \<Longrightarrow> rethrows client r"
  by (simp add: rethrows_def)

lemma rethrows_single:
  "fst r = [c] \<Longrightarrow> (\<And>err. client c = Inl err \<Longrightarrow> snd r = Inl err) \<Longrightarrow> rethrows client r"
  by (simp add: rethrows_def)


lemma putItem_rethrows: "rethrows client (putItem marshall (Some client) tableName it)"
  by (auto simp: rethrows_def putItem_def ddb_send_def Let_def
      split: sum.splits option.splits prod.splits if_splits)


lemma getItem_rethrows: "rethrows client (getItem conv (Some client) tableName key)"
  by (auto simp: rethrows_def getItem_def ddb_send_def Let_def
      split: sum.splits option.splits prod.splits if_splits)


lemma getItemByPK_rethrows: "rethrows client (getItemByPK conv (Some client) tableName pk)"
  by (auto simp: rethrows_def getItemByPK_def ddb_send_def Let_def
      split: sum.splits option.splits prod.splits if_splits)


lemma getItemsByPK_rethrows: "rethrows client (getItemsByPK conv (Some client) tableName pk)"
  by (auto simp: rethrows_def getItemsByPK_def ddb_send_def Let_def
      split: sum.splits option.splits prod.splits if_splits)


lemma getItemsWithSKBeginning_rethrows: "rethrows client (getItemsWithSKBeginning conv (Some client) tableName pk sk)"
  by (auto simp: rethrows_def getItemsWithSKBeginning_def ddb_send_def Let_def
      split: sum.splits option.splits prod.splits if_splits)


lemma getItemsWithSKBetween_rethrows: "rethrows client (getItemsWithSKBetween conv (Some client) tableName keyVals pkName skName pkType skType indexName)"
  by (auto simp: rethrows_def getItemsWithSKBetween_def ddb_send_def Let_def
      split: sum.splits option.splits prod.splits if_splits)


lemma getItemBySK_rethrows: "rethrows client (getItemBySK conv (Some client) tableName sk)"
  by (auto simp: rethrows_def getItemBySK_def ddb_send_def Let_def
      split: sum.splits option.splits prod.splits if_splits)


lemma getAllByPKPrefixAndSK_rethrows: "rethrows client (getAllByPKPrefixAndSK conv (Some client) tableName pkPrefix sk)"
  by (auto simp: rethrows_def getAllByPKPrefixAndSK_def ddb_send_def Let_def
      split: sum.splits option.splits prod.splits if_splits)


lemma deleteItem_rethrows: "rethrows client (deleteItem (Some client) tableName key)"
  by (auto simp: rethrows_def deleteItem_def ddb_send_def Let_def
      split: sum.splits option.splits prod.splits if_splits)


lemma retrieveFileData_rethrows:
  "getS3 new_S3Client w = Inr (s3, w') \<longrightarrow> rethrows s3 (snd (retrieveFileData new_S3Client w files bucket))"
  by (auto simp: rethrows_def retrieveFileData_def s3_send_def Let_def
      split: option.splits sum.splits prod.splits list.splits)

lemma retrieveFileData_construction:
  "getS3 new_S3Client w = Inl err \<and> files = f # fs \<and> truthy (Key f)
     \<longrightarrow> snd (snd (retrieveFileData new_S3Client w files bucket)) = Inl err"
  by (cases "Key f") (auto simp: retrieveFileData_def Let_def)


lemma retrieveSortedFileList_rethrows:
  "getS3 new_S3Client w = Inr (s3, w') \<longrightarrow> rethrows s3 (snd (retrieveSortedFileList new_S3Client w bucket))"
  by (auto simp: rethrows_def retrieveSortedFileList_def s3_send_def Let_def
      split: option.splits sum.splits prod.splits list.splits)

lemma retrieveSortedFileList_construction:
  "getS3 new_S3Client w = Inl err \<longrightarrow> snd (snd (retrieveSortedFileList new_S3Client w bucket)) = Inl err"
  by (simp add: retrieveSortedFileList_def Let_def)


lemma createFileInBucket_rethrows:
  "getS3 new_S3Client w = Inr (s3, w') \<longrightarrow> rethrows s3 (snd (createFileInBucket new_S3Client w bucket contents filename contentType encoding))"
  by (auto simp: rethrows_def createFileInBucket_def s3_send_def Let_def
      split: option.splits sum.splits prod.splits list.splits)

lemma createFileInBucket_construction:
  "getS3 new_S3Client w = Inl err \<longrightarrow> snd (snd (createFileInBucket new_S3Client w bucket contents filename contentType encoding)) = Inl err"
  by (simp add: createFileInBucket_def Let_def)


lemma getFileByName_rethrows:
  "getS3 new_S3Client w = Inr (s3, w') \<longrightarrow> rethrows s3 (snd (getFileByName new_S3Client w bucket name))"
  by (auto simp: rethrows_def getFileByName_def s3_send_def Let_def
      split: option.splits sum.splits prod.splits list.splits)

lemma getFileByName_construction:
  "getS3 new_S3Client w = Inl err \<longrightarrow> snd (snd (getFileByName new_S3Client w bucket name)) = Inl err"
  by (simp add: getFileByName_def Let_def)


lemma deleteFileByName_rethrows:
  "getS3 new_S3Client w = Inr (s3, w') \<longrightarrow> rethrows s3 (snd (deleteFileByName new_S3Client w bucket name))"
  by (auto simp: rethrows_def deleteFileByName_def s3_send_def Let_def
      split: option.splits sum.splits prod.splits list.splits)

lemma deleteFileByName_construction:
  "getS3 new_S3Client w = Inl err \<longrightarrow> snd (snd (deleteFileByName new_S3Client w bucket name)) = Inl err"
  by (simp add: deleteFileByName_def Let_def)


lemma getSignedUrlForFile_rethrows:
  "getS3 new_S3Client w = Inr (s3, w') \<longrightarrow> rethrows s3 (snd (getSignedUrlForFile getSignedUrl new_S3Client w bucket filename operation expiresSeconds))"
  by (auto simp: rethrows_def getSignedUrlForFile_def s3_send_def Let_def
      split: option.splits sum.splits prod.splits list.splits)

lemma getSignedUrlForFile_construction:
  "getS3 new_S3Client w = Inl err \<longrightarrow> snd (snd (getSignedUrlForFile getSignedUrl new_S3Client w bucket filename operation expiresSeconds)) = Inl err"
  by (simp add: getSignedUrlForFile_def Let_def)

lemma writeMessageToQueue_rethrows:
  "rethrows sqsClient (writeMessageToQueue sqsClient queueUrl msg grp)"
  by (auto simp: rethrows_def writeMessageToQueue_def writeMessage_def Let_def split: sum.splits)

lemma send_chunks_rethrows_all: "rethrows sqsClient (send_chunks sqsClient queueUrl chunks)"
  by (induction chunks)
    (auto simp: rethrows_def writeMessageBatch_def split: sum.splits prod.splits)

lemma writeMessageBatchToFifoQueue_rethrows:
  "rethrows sqsClient (writeMessageBatchToFifoQueue sqsClient queueUrl messages)"
  by (simp add: writeMessageBatchToFifoQueue_def send_chunks_rethrows_all)



text \<open>The parameter-store wrapper.\<close>

lemma SsmWrapper_init_construction:
  "new_SSMClient region = Inl err \<longrightarrow> SsmWrapper_init new_SSMClient region w = Inl err"
  by (simp add: SsmWrapper_init_def)




lemma getParam_rethrows_client:
  "ssm w = Some client \<Longrightarrow>
   rethrows client (snd (getParam new_SSMClient region w paramName decrypt))"
  by (auto simp: rethrows_def getParam_with_client Let_def
      split: sum.splits if_splits option.splits)

lemma getParam_rethrows:
  "ssm w = Some client \<or> (ssm w = None \<and> new_SSMClient region = Inr client)
     \<longrightarrow> rethrows client (snd (getParam new_SSMClient region w paramName decrypt))"
proof
  assume "ssm w = Some client \<or> (ssm w = None \<and> new_SSMClient region = Inr client)"
  then show "rethrows client (snd (getParam new_SSMClient region w paramName decrypt))"
  proof
    assume "ssm w = Some client"
    then show ?thesis by (rule getParam_rethrows_client)
  next
    assume a: "ssm w = None \<and> new_SSMClient region = Inr client"
    have "ssm (w\<lparr>ssm := Some client\<rparr>) = Some client" by simp
    from getParam_rethrows_client[OF this, of new_SSMClient region paramName decrypt] a
    show ?thesis by (simp add: getParam_without_client)
  qed
qed

lemma getParamValue_rethrows:
  "ssm w = Some client \<or> (ssm w = None \<and> new_SSMClient region = Inr client)
     \<longrightarrow> rethrows client (snd (getParamValue new_SSMClient region w paramName decrypt))"
  unfolding getParamValue_def by (rule getParam_rethrows)

lemma getParamObject_rethrows:
  "ssm w = Some client \<or> (ssm w = None \<and> new_SSMClient region = Inr client)
     \<longrightarrow> rethrows client
          (snd (getParamObject JSON_parse new_SSMClient region w paramName decrypt))"
proof
  assume "ssm w = Some client \<or> (ssm w = None \<and> new_SSMClient region = Inr client)"
  with getParam_rethrows[of w client new_SSMClient region paramName decrypt]
  have "rethrows client (snd (getParam new_SSMClient region w paramName decrypt))" by simp
  then show "rethrows client
          (snd (getParamObject JSON_parse new_SSMClient region w paramName decrypt))"
    by (auto simp: rethrows_def getParamObject_def split: prod.splits sum.splits option.splits)
qed

lemma getParamValue_construction:
  "ssm w = None \<and> new_SSMClient region = Inl err
     \<longrightarrow> snd (snd (getParamValue new_SSMClient region w paramName decrypt)) = Inl err"
  by (simp add: getParamValue_def getParam_init_fails)

lemma getParamObject_construction:
  "ssm w = None \<and> new_SSMClient region = Inl err
     \<longrightarrow> snd (snd (getParamObject JSON_parse new_SSMClient region w paramName decrypt)) = Inl err"
  by (simp add: getParamObject_def getParam_init_fails)

lemma getParamObject_parse_error:
  "snd (snd (getParam new_SSMClient region w paramName decrypt)) = Inr (Some json)
      \<and> json \<noteq> [] \<and> JSON_parse json = Inl err
     \<longrightarrow> snd (snd (getParamObject JSON_parse new_SSMClient region w paramName decrypt)) = Inl err"
  by (auto simp: getParamObject_def split: prod.splits sum.splits option.splits)

text \<open>The paginated listing.\<close>

lemma getListOfFileKeys_rejection:
  "getS3 new_S3Client w = Inr (s3, w')
      \<and> rejected_after s3
           \<lparr>Bucket = bucket, MaxKeys = Some 100, Prefix = pfx, ContinuationToken = None\<rparr> pages err
     \<longrightarrow> getListOfFileKeys new_S3Client w bucket pfx
          = Some (w',
              requests_until_rejected
                \<lparr>Bucket = bucket, MaxKeys = Some 100, Prefix = pfx, ContinuationToken = None\<rparr> pages,
              Inl err)"
  by (auto intro: getListOfFileKeys_rejected)

lemma getListOfFileKeys_construction:
  "getS3 new_S3Client w = Inl err
     \<longrightarrow> getListOfFileKeys new_S3Client w bucket pfx = Some (w, [], Inl err)"
  by (simp add: getListOfFileKeys_def Let_def)

text \<open>Failures that do not come from a request.\<close>

lemma putItem_marshall_fails:
  "marshall it = Inl err \<longrightarrow> putItem marshall ddb tableName it = ([], Inl err)"
  by (simp add: putItem_def)


lemma getParamValue_cache_refuses:
  "(ssm w = Some client \<or> (ssm w = None \<and> new_SSMClient region = Inr client))
      \<and> \<not> truthy (cache w paramName)
      \<and> client (GetParameterCommand
                  \<lparr>Name = paramName,
                   WithDecryption = (case decrypt of None \<Rightarrow> True | Some d \<Rightarrow> d)\<rparr>) = Inr answer
      \<and> Option.bind (Parameter answer) Value = None
     \<longrightarrow> snd (snd (getParamValue new_SSMClient region w paramName decrypt))
          = Inl (TypeError set_undefined)"
proof
  assume a: "(ssm w = Some client \<or> (ssm w = None \<and> new_SSMClient region = Inr client))
      \<and> \<not> truthy (cache w paramName)
      \<and> client (GetParameterCommand
                  \<lparr>Name = paramName,
                   WithDecryption = (case decrypt of None \<Rightarrow> True | Some d \<Rightarrow> d)\<rparr>) = Inr answer
      \<and> Option.bind (Parameter answer) Value = None"
  then have "getParam new_SSMClient region w paramName decrypt
           = (w\<lparr>ssm := Some client\<rparr>,
              [GetParameterCommand
                 \<lparr>Name = paramName,
                  WithDecryption = (case decrypt of None \<Rightarrow> True | Some d \<Rightarrow> d)\<rparr>],
              Inl (TypeError set_undefined))"
    by (intro getParam_valueless[where result = answer]) blast+
  then show "snd (snd (getParamValue new_SSMClient region w paramName decrypt))
          = Inl (TypeError set_undefined)"
    by (simp add: getParamValue_def)
qed

lemma getFileByName_stream_error:
  "getS3 new_S3Client w = Inr (s3, w') \<and> s3 (GetObjectCommand bucket name) = Inr data
      \<and> Body data = Some stream \<and> stream_error stream = Some err
     \<longrightarrow> snd (snd (getFileByName new_S3Client w bucket name)) = Inl err"
  by (simp add: getFileByName_def s3_send_def)

lemma getSignedUrlForFile_outcome:
  "getS3 new_S3Client w = Inr (s3, w')
     \<longrightarrow> (\<exists>command.
           snd (snd (getSignedUrlForFile getSignedUrl new_S3Client w bucket filename operation
                       expiresSeconds))
             = getSignedUrl s3 command (case expiresSeconds of None \<Rightarrow> 3600 | Some n \<Rightarrow> n))"
  by (auto simp: getSignedUrlForFile_def Let_def)

lemma stripS3ObjectKeyOfSpecialChars_outcome:
  "\<exists>replaced. stripS3ObjectKeyOfSpecialChars decodeURIComponent s3ObjectKey
                 = decodeURIComponent replaced"
  by (auto simp: stripS3ObjectKeyOfSpecialChars_def)

text \<open>\<open>DynDb.init\<close> returns normally whatever the constructor does; after a failed
  construction the client stays undefined and the operations send nothing.\<close>

lemma DynDb_init_returns: "\<not> isl (DynDb_init new_DynamoDBClient region ddb)"
  by (simp add: DynDb_init_def Let_def split: option.splits sum.splits)

lemma DynDb_init_swallows:
  "new_DynamoDBClient \<lparr>ddb_apiVersion = ''2012-08-10'', ddb_region = region\<rparr> = Inl err
     \<longrightarrow> DynDb_init new_DynamoDBClient region None = Inr None"
  by (simp add: DynDb_init_def Let_def)

lemma no_client_no_result:
  "putItem marshall None tableName it
     = ([], case marshall it of Inl err \<Rightarrow> Inl err | Inr marshalled \<Rightarrow> Inr ())"
  "getItem conv None tableName key = ([], Inr None)"
  "getItemByPK conv None tableName pk = ([], Inr None)"
  "getItemsByPK conv None tableName pk = ([], Inr [])"
  "getItemsWithSKBeginning conv None tableName pk sk = ([], Inr [])"
  "getItemsWithSKBetween conv None tableName keyVals pkName skName pkType skType indexName
     = ([], Inr [])"
  "getItemBySK conv None tableName sk = ([], Inr None)"
  "getAllByPKPrefixAndSK conv None tableName pkPrefix sk = ([], Inr [])"
  "deleteItem None tableName key = ([], Inr ())"
  by (simp_all add: putItem_def getItem_def getItemByPK_def getItemsByPK_def
      getItemsWithSKBeginning_def getItemsWithSKBetween_def getItemBySK_def
      getAllByPKPrefixAndSK_def deleteItem_def ddb_send_def Let_def first_item_def
      unmarshalled_items_def split: sum.splits)




text \<open>
  C6. In every wrapper operation, the value with which the client rejects a request
  reaches the caller unchanged (\<open>getListOfFileKeys\<close> ends at the first rejected request and
  throws its value), and so does a failure to marshall the item of \<open>putItem\<close>, a failure to
  construct the object-store or the parameter-store client, a failure to parse a
  parameter, an error of the stream of a
  fetched object, and the \<open>TypeError\<close> of the cache when the parameter store answers without a
  value. The exception is \<open>DynDb.init\<close>: it returns normally whatever the constructor of
  the client does, and after a failed construction the client is left undefined; the
  key-value operations then send nothing and return undefined or an empty list.
\<close>

theorem wrappers_rethrow:
  "rethrows client (putItem marshall (Some client) tableName it)
   \<and> rethrows client (getItem conv (Some client) tableName key)
   \<and> rethrows client (getItemByPK conv (Some client) tableName pk)
   \<and> rethrows client (getItemsByPK conv (Some client) tableName pk)
   \<and> rethrows client (getItemsWithSKBeginning conv (Some client) tableName pk sk)
   \<and> rethrows client (getItemsWithSKBetween conv (Some client) tableName keyVals
           pkName skName pkType skType indexName)
   \<and> rethrows client (getItemBySK conv (Some client) tableName sk)
   \<and> rethrows client (getAllByPKPrefixAndSK conv (Some client) tableName pkPrefix sk)
   \<and> rethrows client (deleteItem (Some client) tableName key)
   \<and> (getS3 new_S3Client w = Inr (cl, w')
       \<longrightarrow> rethrows cl (snd (retrieveFileData new_S3Client w files bucket)))
   \<and> (getS3 new_S3Client w = Inr (cl, w')
       \<longrightarrow> rethrows cl (snd (retrieveSortedFileList new_S3Client w bucket)))
   \<and> (getS3 new_S3Client w = Inr (cl, w')
       \<longrightarrow> rethrows cl (snd (createFileInBucket new_S3Client w
           bucket contents filename contentType encoding)))
   \<and> (getS3 new_S3Client w = Inr (cl, w')
       \<longrightarrow> rethrows cl (snd (getFileByName new_S3Client w bucket name)))
   \<and> (getS3 new_S3Client w = Inr (cl, w')
       \<longrightarrow> rethrows cl (snd (deleteFileByName new_S3Client w bucket name)))
   \<and> (getS3 new_S3Client w = Inr (cl, w')
       \<longrightarrow> rethrows cl (snd (getSignedUrlForFile getSignedUrl
           new_S3Client w bucket filename operation expiresSeconds)))
   \<and> (getS3 new_S3Client w = Inr (cl, w')
        \<and> rejected_after cl \<lparr>Bucket = bucket, MaxKeys = Some 100, Prefix = pfx, ContinuationToken = None\<rparr>
              pages err
       \<longrightarrow> getListOfFileKeys new_S3Client w bucket pfx
            = Some (w',
                requests_until_rejected
                  \<lparr>Bucket = bucket, MaxKeys = Some 100, Prefix = pfx, ContinuationToken = None\<rparr>
                  pages,
                Inl err))
   \<and> rethrows sqsClient (writeMessageToQueue sqsClient queueUrl msg grp)
   \<and> rethrows sqsClient (writeMessageBatchToFifoQueue sqsClient queueUrl messages)
   \<and> (ssm sw = Some ssmClient \<or> (ssm sw = None \<and> new_SSMClient region = Inr ssmClient)
       \<longrightarrow> rethrows ssmClient (snd (getParamValue new_SSMClient region sw paramName decrypt)))
   \<and> (ssm sw = Some ssmClient \<or> (ssm sw = None \<and> new_SSMClient region = Inr ssmClient)
       \<longrightarrow> rethrows ssmClient
            (snd (getParamObject JSON_parse new_SSMClient region sw paramName decrypt)))
   \<and> (marshall it = Inl err \<longrightarrow> putItem marshall ddb tableName it = ([], Inl err))
   \<and> (getS3 new_S3Client w = Inl err \<and> files = f # fs \<and> truthy (Key f)
       \<longrightarrow> snd (snd (retrieveFileData new_S3Client w files bucket)) = Inl err)
   \<and> (getS3 new_S3Client w = Inl err
       \<longrightarrow> snd (snd (retrieveSortedFileList new_S3Client w bucket)) = Inl err)
   \<and> (getS3 new_S3Client w = Inl err
       \<longrightarrow> snd (snd (createFileInBucket new_S3Client w bucket
           contents filename contentType encoding)) = Inl err)
   \<and> (getS3 new_S3Client w = Inl err
       \<longrightarrow> snd (snd (getFileByName new_S3Client w bucket name)) = Inl err)
   \<and> (getS3 new_S3Client w = Inl err
       \<longrightarrow> snd (snd (deleteFileByName new_S3Client w bucket name)) = Inl err)
   \<and> (getS3 new_S3Client w = Inl err
       \<longrightarrow> snd (snd (getSignedUrlForFile getSignedUrl new_S3Client
           w bucket filename operation expiresSeconds)) = Inl err)
   \<and> (getS3 new_S3Client w = Inl err
       \<longrightarrow> getListOfFileKeys new_S3Client w bucket pfx = Some (w, [], Inl err))
   \<and> (new_SSMClient region = Inl err
       \<longrightarrow> SsmWrapper_init new_SSMClient region sw = Inl err)
   \<and> (ssm sw = None \<and> new_SSMClient region = Inl err
       \<longrightarrow> snd (snd (getParamValue new_SSMClient region sw paramName decrypt)) = Inl err)
   \<and> (ssm sw = None \<and> new_SSMClient region = Inl err
       \<longrightarrow> snd (snd (getParamObject JSON_parse new_SSMClient region sw paramName decrypt)) = Inl err)
   \<and> (snd (snd (getParam new_SSMClient region sw paramName decrypt)) = Inr (Some json)
        \<and> json \<noteq> [] \<and> JSON_parse json = Inl err
       \<longrightarrow> snd (snd (getParamObject JSON_parse new_SSMClient region sw paramName decrypt)) = Inl err)
   \<and> (getS3 new_S3Client w = Inr (cl, w') \<and> cl (GetObjectCommand bucket name) = Inr data
        \<and> Body data = Some stream \<and> stream_error stream = Some err
       \<longrightarrow> snd (snd (getFileByName new_S3Client w bucket name)) = Inl err)
   \<and> ((ssm sw = Some ssmClient \<or> (ssm sw = None \<and> new_SSMClient region = Inr ssmClient))
        \<and> \<not> truthy (cache sw paramName)
        \<and> ssmClient (GetParameterCommand
                        \<lparr>Name = paramName,
                         WithDecryption = (case decrypt of None \<Rightarrow> True | Some d \<Rightarrow> d)\<rparr>)
            = Inr answer
        \<and> Option.bind (Parameter answer) Value = None
       \<longrightarrow> snd (snd (getParamValue new_SSMClient region sw paramName decrypt))
            = Inl (TypeError set_undefined))
   \<and> \<not> isl (DynDb_init new_DynamoDBClient region ddb)
   \<and> (new_DynamoDBClient \<lparr>ddb_apiVersion = ''2012-08-10'', ddb_region = region\<rparr> = Inl err
       \<longrightarrow> DynDb_init new_DynamoDBClient region None = Inr None)
   \<and> putItem marshall None tableName it
       = ([], case marshall it of Inl err \<Rightarrow> Inl err | Inr marshalled \<Rightarrow> Inr ())
   \<and> getItem conv None tableName key = ([], Inr None)
   \<and> getItemByPK conv None tableName pk = ([], Inr None)
   \<and> getItemsByPK conv None tableName pk = ([], Inr [])
   \<and> getItemsWithSKBeginning conv None tableName pk sk = ([], Inr [])
   \<and> getItemsWithSKBetween conv None tableName keyVals pkName skName pkType skType indexName
       = ([], Inr [])
   \<and> getItemBySK conv None tableName sk = ([], Inr None)
   \<and> getAllByPKPrefixAndSK conv None tableName pkPrefix sk = ([], Inr [])
   \<and> deleteItem None tableName key = ([], Inr ())"
  by (intro conjI
      putItem_rethrows getItem_rethrows getItemByPK_rethrows getItemsByPK_rethrows
      getItemsWithSKBeginning_rethrows getItemsWithSKBetween_rethrows getItemBySK_rethrows
      getAllByPKPrefixAndSK_rethrows deleteItem_rethrows retrieveFileData_rethrows
      retrieveSortedFileList_rethrows createFileInBucket_rethrows getFileByName_rethrows
      deleteFileByName_rethrows getSignedUrlForFile_rethrows getListOfFileKeys_rejection
      writeMessageToQueue_rethrows writeMessageBatchToFifoQueue_rethrows
      getParamValue_rethrows getParamObject_rethrows putItem_marshall_fails
      retrieveFileData_construction retrieveSortedFileList_construction
      createFileInBucket_construction getFileByName_construction
      deleteFileByName_construction getSignedUrlForFile_construction
      getListOfFileKeys_construction SsmWrapper_init_construction getParamValue_construction
      getParamObject_construction getParamObject_parse_error getFileByName_stream_error
      getParamValue_cache_refuses DynDb_init_returns DynDb_init_swallows no_client_no_result)

theorem wrappers_rethrow_witness:
  "snd (snd (createFileInBucket new_failing_s3 fresh_S3Wrapper ''bucket'' (Some ''some text'')
               ''file.txt'' None None))
     = Inl (ServiceException ''AccessDenied'')
   \<and> snd (writeMessageBatchToFifoQueue failing_sqs ''queue'' [hello])
     = Inl (ServiceException ''QueueDoesNotExist'')
   \<and> snd (getItem native (Some failing_ddb) ''table'' \<lparr>PK = ''user#1'', SK = None\<rparr>)
     = Inl (ServiceException ''ResourceNotFoundException'')
   \<and> snd (snd (getFileByName new_throwing_s3 fresh_S3Wrapper ''bucket'' ''file.txt''))
     = Inl (ServiceException ''CredentialsProviderError'')
   \<and> DynDb_init failing_new_ddb ''eu-west-1'' None = Inr None
   \<and> getListOfFileKeys new_rejecting_s3 fresh_S3Wrapper ''bucket'' None
     = Some (fresh_S3Wrapper\<lparr>s3Client := Some rejecting_s3\<rparr>,
         [ListObjectsV2Command
            \<lparr>Bucket = ''bucket'', MaxKeys = Some 100, Prefix = None, ContinuationToken = None\<rparr>,
          ListObjectsV2Command
            \<lparr>Bucket = ''bucket'', MaxKeys = Some 100, Prefix = None,
             ContinuationToken = Some ''token-1''\<rparr>],
         Inl (ServiceException ''SlowDown''))
   \<and> snd (snd (getParamValue new_param_ssm ''eu-west-1''
                 (fresh_SsmWrapper\<lparr>ssm := Some valueless_ssm\<rparr>) ''someparam'' None))
     = Inl (TypeError set_undefined)"
proof -
  have r: "getS3 new_rejecting_s3 fresh_S3Wrapper
             = Inr (rejecting_s3, fresh_S3Wrapper\<lparr>s3Client := Some rejecting_s3\<rparr>)"
    by (simp add: getS3_def initialise_def fresh_S3Wrapper_def new_rejecting_s3_def)
  have g: "getS3 new_failing_s3 fresh_S3Wrapper
             = Inr (failing_s3, fresh_S3Wrapper\<lparr>s3Client := Some failing_s3\<rparr>)"
    by (simp add: getS3_def initialise_def fresh_S3Wrapper_def new_failing_s3_def)
  have t: "getS3 new_throwing_s3 fresh_S3Wrapper = Inl (ServiceException ''CredentialsProviderError'')"
    by (simp add: getS3_def initialise_def fresh_S3Wrapper_def new_throwing_s3_def)
  have c: "fst (snd (createFileInBucket new_failing_s3 fresh_S3Wrapper ''bucket''
                  (Some ''some text'') ''file.txt'' None None))
             = [PutObjectCommand
                  \<lparr>put_Bucket = ''bucket'', put_Key = ''file.txt'', put_Body = Some ''some text'',
                   ContentType = Some ''application/json'', ContentEncoding = None\<rparr>]"
    by (simp add: createFileInBucket_def getS3_def initialise_def fresh_S3Wrapper_def
        new_failing_s3_def s3_send_def failing_s3_def)
  have q: "fst (writeMessageBatchToFifoQueue failing_sqs ''queue'' [hello])
             = [batch_command ''queue'' [hello]]"
    by (simp add: writeMessageBatchToFifoQueue_def chunk_single writeMessageBatch_def
        failing_sqs_def)
  have i: "fst (getItem native (Some failing_ddb) ''table'' \<lparr>PK = ''user#1'', SK = None\<rparr>)
             = [GetItemCommand ''table'' (marshall_key \<lparr>PK = ''user#1'', SK = None\<rparr>)]"
    by (simp add: getItem_def ddb_send_def failing_ddb_def)
  note put_rejected = wrappers_rethrow[where new_S3Client = new_failing_s3 and w = fresh_S3Wrapper
      and cl = failing_s3 and w' = "fresh_S3Wrapper\<lparr>s3Client := Some failing_s3\<rparr>"
      and bucket = "''bucket''" and contents = "Some ''some text''" and filename = "''file.txt''"
      and contentType = None and encoding = None,
      THEN conjunct2, THEN conjunct2, THEN conjunct2, THEN conjunct2, THEN conjunct2,
      THEN conjunct2, THEN conjunct2, THEN conjunct2, THEN conjunct2, THEN conjunct2,
      THEN conjunct2, THEN conjunct1]
  note batch_rejected = wrappers_rethrow[where sqsClient = failing_sqs and queueUrl = "''queue''" and messages = "[hello]",
      THEN conjunct2, THEN conjunct2, THEN conjunct2, THEN conjunct2, THEN conjunct2,
      THEN conjunct2, THEN conjunct2, THEN conjunct2, THEN conjunct2, THEN conjunct2,
      THEN conjunct2, THEN conjunct2, THEN conjunct2, THEN conjunct2, THEN conjunct2,
      THEN conjunct2, THEN conjunct2, THEN conjunct1]
  note get_rejected = wrappers_rethrow[where conv = native and client = failing_ddb and tableName = "''table''"
      and key = "\<lparr>PK = ''user#1'', SK = None\<rparr>",
      THEN conjunct2, THEN conjunct1]
  note no_client = wrappers_rethrow[where new_S3Client = new_throwing_s3 and w = fresh_S3Wrapper
      and bucket = "''bucket''" and name = "''file.txt''"
      and err = "ServiceException ''CredentialsProviderError''",
      THEN conjunct2, THEN conjunct2, THEN conjunct2, THEN conjunct2, THEN conjunct2,
      THEN conjunct2, THEN conjunct2, THEN conjunct2, THEN conjunct2, THEN conjunct2,
      THEN conjunct2, THEN conjunct2, THEN conjunct2, THEN conjunct2, THEN conjunct2,
      THEN conjunct2, THEN conjunct2, THEN conjunct2, THEN conjunct2, THEN conjunct2,
      THEN conjunct2, THEN conjunct2, THEN conjunct2, THEN conjunct2, THEN conjunct1]
  note swallowed = wrappers_rethrow[where new_DynamoDBClient = failing_new_ddb and region = "''eu-west-1''"
      and err = "ServiceException ''InvalidConfiguration''",
      THEN conjunct2, THEN conjunct2, THEN conjunct2, THEN conjunct2, THEN conjunct2,
      THEN conjunct2, THEN conjunct2, THEN conjunct2, THEN conjunct2, THEN conjunct2,
      THEN conjunct2, THEN conjunct2, THEN conjunct2, THEN conjunct2, THEN conjunct2,
      THEN conjunct2, THEN conjunct2, THEN conjunct2, THEN conjunct2, THEN conjunct2,
      THEN conjunct2, THEN conjunct2, THEN conjunct2, THEN conjunct2, THEN conjunct2,
      THEN conjunct2, THEN conjunct2, THEN conjunct2, THEN conjunct2, THEN conjunct2,
      THEN conjunct2, THEN conjunct2, THEN conjunct2, THEN conjunct2, THEN conjunct2,
      THEN conjunct1]
  from put_rejected g c
  have 1: "snd (snd (createFileInBucket new_failing_s3 fresh_S3Wrapper ''bucket''
                  (Some ''some text'') ''file.txt'' None None))
             = Inl (ServiceException ''AccessDenied'')"
    by (simp add: rethrows_def failing_s3_def)
  from batch_rejected q
  have 2: "snd (writeMessageBatchToFifoQueue failing_sqs ''queue'' [hello])
             = Inl (ServiceException ''QueueDoesNotExist'')"
    by (simp add: rethrows_def failing_sqs_def)
  from get_rejected i
  have 3: "snd (getItem native (Some failing_ddb) ''table'' \<lparr>PK = ''user#1'', SK = None\<rparr>)
             = Inl (ServiceException ''ResourceNotFoundException'')"
    by (simp add: rethrows_def failing_ddb_def)
  from no_client t
  have 4: "snd (snd (getFileByName new_throwing_s3 fresh_S3Wrapper ''bucket'' ''file.txt''))
             = Inl (ServiceException ''CredentialsProviderError'')" by simp
  from swallowed
  have 5: "DynDb_init failing_new_ddb ''eu-west-1'' None = Inr None"
    by (simp add: failing_new_ddb_def)
  note listing_rejected = wrappers_rethrow[where new_S3Client = new_rejecting_s3 and w = fresh_S3Wrapper
      and cl = rejecting_s3 and w' = "fresh_S3Wrapper\<lparr>s3Client := Some rejecting_s3\<rparr>"
      and bucket = "''bucket''" and pfx = None and pages = "[page_one]"
      and err = "ServiceException ''SlowDown''",
      THEN conjunct2, THEN conjunct2, THEN conjunct2, THEN conjunct2, THEN conjunct2,
      THEN conjunct2, THEN conjunct2, THEN conjunct2, THEN conjunct2, THEN conjunct2,
      THEN conjunct2, THEN conjunct2, THEN conjunct2, THEN conjunct2, THEN conjunct2,
      THEN conjunct1]
  from listing_rejected r rejected_listing
  have 6: "getListOfFileKeys new_rejecting_s3 fresh_S3Wrapper ''bucket'' None
     = Some (fresh_S3Wrapper\<lparr>s3Client := Some rejecting_s3\<rparr>,
         [ListObjectsV2Command
            \<lparr>Bucket = ''bucket'', MaxKeys = Some 100, Prefix = None, ContinuationToken = None\<rparr>,
          ListObjectsV2Command
            \<lparr>Bucket = ''bucket'', MaxKeys = Some 100, Prefix = None,
             ContinuationToken = Some ''token-1''\<rparr>],
         Inl (ServiceException ''SlowDown''))"
    by (simp add: requests_until_rejected_def page_one_def)
  note cache_refuses = wrappers_rethrow[where new_SSMClient = new_param_ssm and region = "''eu-west-1''"
      and sw = "fresh_SsmWrapper\<lparr>ssm := Some valueless_ssm\<rparr>" and ssmClient = valueless_ssm
      and paramName = "''someparam''" and decrypt = None and answer = "\<lparr>Parameter = None\<rparr>",
      THEN conjunct2, THEN conjunct2, THEN conjunct2, THEN conjunct2, THEN conjunct2,
      THEN conjunct2, THEN conjunct2, THEN conjunct2, THEN conjunct2, THEN conjunct2,
      THEN conjunct2, THEN conjunct2, THEN conjunct2, THEN conjunct2, THEN conjunct2,
      THEN conjunct2, THEN conjunct2, THEN conjunct2, THEN conjunct2, THEN conjunct2,
      THEN conjunct2, THEN conjunct2, THEN conjunct2, THEN conjunct2, THEN conjunct2,
      THEN conjunct2, THEN conjunct2, THEN conjunct2, THEN conjunct2, THEN conjunct2,
      THEN conjunct2, THEN conjunct2, THEN conjunct2, THEN conjunct1]
  have "\<not> truthy (cache fresh_SsmWrapper ''someparam'')" by (simp add: fresh_SsmWrapper_def)
  moreover have "valueless_ssm (GetParameterCommand \<lparr>Name = ''someparam'', WithDecryption = True\<rparr>)
          = Inr \<lparr>Parameter = None\<rparr>" by (simp add: valueless_ssm_def)
  ultimately
  have 7: "snd (snd (getParamValue new_param_ssm ''eu-west-1''
                 (fresh_SsmWrapper\<lparr>ssm := Some valueless_ssm\<rparr>) ''someparam'' None))
     = Inl (TypeError set_undefined)"
    using cache_refuses by simp
  from 1 2 3 4 5 6 7 show ?thesis by simp
qed

text \<open>The claim as it stands fails for \<open>DynDb.init\<close>: the constructor throws, and \<open>init\<close>
  returns normally with the client undefined.\<close>

theorem DynDb_init_swallows_failure:
  "failing_new_ddb \<lparr>ddb_apiVersion = ''2012-08-10'', ddb_region = ''eu-west-1''\<rparr>
     = Inl (ServiceException ''InvalidConfiguration'')
   \<and> DynDb_init failing_new_ddb ''eu-west-1'' None = Inr None"
  by (simp add: failing_new_ddb_def DynDb_init_def)


end
